theory Spec2Isabelle
  imports Main
begin

section \<open>Data model of the bubble contract (core/vm/bubble_contract.go)\<close>

text \<open>
  Addresses, hashes and bubble identifiers are kept as natural numbers; byte strings as
  lists of numbers. The all-zero hash \<open>common.ZeroHash\<close> is the number 0.
\<close>

type_synonym address = nat
type_synonym hash = nat
type_synonym bubbleID = nat
type_synonym bytes = "nat list"

definition ZeroHash :: hash where
  "ZeroHash = 0"

text \<open>The function codes of the contract, as the \<open>const\<close> block declares them.\<close>

definition TxAllotBubble :: nat where "TxAllotBubble = 8001"
definition TxStakingToken :: nat where "TxStakingToken = 8003"
definition TxWithdrewToken :: nat where "TxWithdrewToken = 8004"
definition TxSettleBubble :: nat where "TxSettleBubble = 8005"
definition TxRemoteDeploy :: nat where "TxRemoteDeploy = 8006"
definition TxRemoteCallExecutor :: nat where "TxRemoteCallExecutor = 8008"

text \<open>
  \<open>bubble.AccTokenAsset\<close> and \<open>bubble.AccountAsset\<close>. Amounts are \<open>*big.Int\<close> values
  that arrive RLP-decoded, hence never negative: they are natural numbers. A \<open>nil\<close>
  amount (which \<open>WithdrewToken\<close> leaves in \<open>resetAsset.NativeAmount\<close> when the stored
  native amount is zero) is written by the RLP encoder as the integer zero, so the
  persisted amount is 0 in both cases; a \<open>nil\<close> slice and an empty one are both \<open>[]\<close>.
\<close>

record AccTokenAsset =
  TokenAddr :: address
  Balance :: nat

record AccountAsset =
  Account :: address
  NativeAmount :: nat
  TokenAssets :: "AccTokenAsset list"

record SettlementInfo =
  AccAssets :: "AccountAsset list"

record Operator =
  NodeId :: nat
  RPC :: string
  OpAddr :: address

record BubBasics =
  BubbleId :: bubbleID
  Size :: nat
  OperatorsL1 :: "Operator list"
  OperatorsL2 :: "Operator list"

record Bubble =
  Basics :: BubBasics
  State :: nat

record ContractInfo =
  Creator :: address
  Address :: address
  Amount :: nat

datatype BubTxType = StakingTokenTx | WithdrewTokenTx | SettleBubbleTx

text \<open>
  The cross-chain tasks handed to the operator channel. Fields in the order of the Go
  struct literals: \<open>RemoteDeployTask{TxHash, BlockHash, BubbleID, Address, Data, RPC, OpAddr}\<close>,
  \<open>RemoteCallTask{TxHash, Caller, BubbleID, Contract, Data, RPC, OpAddr}\<close>,
  \<open>MintTokenTask{BubbleID, TxHash, RPC, OpAddr, AccAsset}\<close>.
\<close>

datatype task =
    RemoteDeployTask hash hash bubbleID address bytes string address
  | RemoteCallTask hash address bubbleID address bytes string address
  | MintTokenTask bubbleID hash string address AccountAsset

subsection \<open>Errors and results\<close>

text \<open>Modelled from the spec: the error values of package \<open>x/bubble\<close> are missing
  from the sources. Section 7 of the specification classes bubble-not-found,
  insufficient balance, wrong state, unauthorized sender, missing token contract and
  encoding failure as business errors, and the code passes these values to
  \<open>txResultHandler\<close> where a \<open>*common.BizError\<close> is expected. \<open>ErrContractReturns\<close>
  carries the wrapped message.\<close>

datatype bizerr =
    ErrStakingAccount | ErrBubbleNotExist | ErrBubbleIsRelease | ErrAccountNoEnough
  | ErrERC20NoExist | ErrEncodeTransferData | ErrEVMExecERC20 | ErrBubbleIsNotRelease
  | ErrStoreAccAsset | ErrIsNotSubChainOpAddr | ErrSettleAccListIncLength
  | ErrSettleAccNoExist | ErrStoreAccAssetToBub | ErrStoreL2HashToL1Hash
  | ErrStakingAmountTooLow | ErrBubbleIsPreRelease | ErrEmptyContractCode
  | ErrContractIsExist | ErrSenderIsNotCreator | ErrContractNotExist
  | ErrSenderIsNotOperator | ErrContractReturns string

text \<open>The operations of the plugin (\<open>bc.Plugin\<close>), named so that a failure can say where it arose.\<close>

datatype dbop =
    GetBubBasicsOp | GetBubStatusOp | GetBubbleInfoOp | GetAccAssetOfBubOp
  | GetAccListOfBubOp | GetBubContractOp | GetByteCodeOp | AddAccAssetToBubOp
  | StoreAccAssetToBubOp | StoreTxHashToBubOp | StoreL2HashToL1HashOp
  | StoreBubContractOp | DelBubContractOp | PostMintTokenEventOp
  | PostRemoteDeployEventOp | PostRemoteCallEventOp | GetSizeConfigOp

text \<open>
  An \<open>error\<close> is what a Go function returns in its \<open>error\<close> position, or a run-time
  panic: a business error (\<open>*common.BizError\<close>), \<open>ErrOutOfGas\<close>, a plain
  \<open>errors.New\<close> message, an error handed up from a plugin operation, or \<open>Panic\<close>
  (nil dereference, index out of range), which is not a returned value at all.
\<close>

datatype error =
    Biz bizerr
  | ErrOutOfGas
  | Plain string
  | Sys dbop
  | Panic

text \<open>
  A Go result pair \<open>(ret, err)\<close> of the processing functions is a value of
  \<open>error + 'a option\<close>: \<open>Inl e\<close> is \<open>(nil, e)\<close>, \<open>Inr None\<close> is \<open>(nil, nil)\<close> and
  \<open>Inr (Some v)\<close> is \<open>(v, nil)\<close>.
\<close>

text \<open>Modelled from the spec: \<open>txResultHandler\<close> and \<open>txResultHandlerWithRes\<close> are
  missing from the sources. What they return is kept symbolic: \<open>BizReceipt fn e\<close> is the
  structured failure result built for function code \<open>fn\<close> and business error \<open>e\<close>,
  \<open>OkReceipt fn\<close> the receipt built with \<open>common.NoErr\<close> (its encoded payload is left
  out). \<open>Null\<close> is the pair \<open>(nil, nil)\<close> and \<open>Failed e\<close> the pair \<open>(nil, e)\<close>.\<close>

datatype outcome =
    Null
  | Failed error
  | BizReceipt nat bizerr
  | OkReceipt nat

subsection \<open>The state an operation runs against\<close>

text \<open>
  \<open>StateDB\<close>: native balances (\<open>*big.Int\<close>, which \<open>SubBalance\<close> may drive below
  zero), contract code and contract storage.
\<close>

record StateDB =
  balances :: "address \<Rightarrow> int"
  codes :: "address \<Rightarrow> bytes"
  storage :: "address \<Rightarrow> nat \<Rightarrow> nat"

text \<open>
  The records kept by the plugin, one map per key prefix of \<open>x/bubble/bubble_db_key.go\<close>
  and of the plugin's read and write operations.
\<close>

record BubbleDB =
  basicsOf :: "bubbleID \<Rightarrow> BubBasics option"
  statusOf :: "bubbleID \<Rightarrow> nat option"
  accListOf :: "bubbleID \<Rightarrow> address list"
  accAssetOf :: "bubbleID \<times> address \<Rightarrow> AccountAsset option"
  txHashListOf :: "bubbleID \<times> BubTxType \<Rightarrow> hash list"
  l1HashOf :: "bubbleID \<times> hash \<Rightarrow> hash option"
  bubContractOf :: "bubbleID \<times> address \<Rightarrow> ContractInfo option"
  byteCodeOf :: "address \<Rightarrow> bytes option"

text \<open>
  The mutable world of one call: the state database, the gas left in \<open>bc.Contract\<close>,
  the plugin's records and the tasks posted so far (oldest first).
\<close>

record world =
  sdb :: StateDB
  Gas :: nat
  bdb :: BubbleDB
  posted :: "task list"

text \<open>What a call reads and never writes: caller, origin, block hash and transaction hash.\<close>

record ctx =
  CallerAddress :: address
  Origin :: address
  BlockHash :: hash
  TxHash :: hash

text \<open>The call descriptor the shared \<open>Contract\<close> object amounts to when \<open>RunEvm\<close> is entered.\<close>

record EvmCall =
  callCaller :: address
  callSelf :: address
  callCode :: bytes
  callInput :: bytes

text \<open>
  Everything the contract uses from packages whose sources are missing is a parameter:
  the custody address \<open>vm.BubbleContractAddr\<close>, the status constants of package
  \<open>bubble\<close>, the gas prices of package \<open>params\<close>, \<open>bubble.GetSizeConfig\<close> (the
  minimum staking amount of a size class, \<open>None\<close> when it returns an error),
  \<open>encodeTransferFuncCall\<close> (\<open>None\<close> when it returns an error), the virtual machine
  \<open>RunEvm\<close>, the plugin's way of adding a staked asset, the plugin's node identity,
  and \<open>faulty\<close>, which says which plugin operations return an error of their own (a
  storage failure). \<open>RunEvm\<close> is given the call descriptor and the state database and
  returns the state database it leaves, or \<open>Inl msg\<close> when it returns an error; a
  failed sub-call is as if no transfer had occurred at all.
\<close>

record env =
  BubbleContractAddr :: address
  ReleasedStatus :: nat
  PreReleaseStatus :: nat
  StakingTokenGas :: nat
  WithdrewTokenGas :: nat
  SettleBubbleGas :: nat
  RemoteDeployGas :: nat
  RemoteCallGas :: nat
  RemoteCallExecutorGas :: nat
  GetSizeConfig :: "nat \<Rightarrow> nat option"
  encodeTransferFuncCall :: "address \<Rightarrow> nat \<Rightarrow> bytes option"
  RunEvm :: "EvmCall \<Rightarrow> StateDB \<Rightarrow> string + StateDB"
  AddAccAsset :: "bubbleID \<Rightarrow> AccountAsset \<Rightarrow> BubbleDB \<Rightarrow> BubbleDB"
  NodeID :: nat
  faulty :: "dbop \<Rightarrow> bool"

section \<open>The collaborators\<close>

text \<open>Modelled from the spec: \<open>Contract.UseGas\<close> is missing from the sources. Every
  operation reserves its metered cost up front and is rejected before any mutation if
  the caller cannot pay it.\<close>

definition UseGas :: "nat \<Rightarrow> world \<Rightarrow> world option" where
  "UseGas g w = (if Gas w < g then None else Some (w\<lparr>Gas := Gas w - g\<rparr>))"

text \<open>Modelled from the spec: \<open>StateDB.GetBalance\<close> is missing from the sources; the
  virtual machine holds the account balances and gives them out.\<close>

definition GetBalance :: "StateDB \<Rightarrow> address \<Rightarrow> int" where
  "GetBalance s a = balances s a"

text \<open>Modelled from the spec: \<open>StateDB.SubBalance\<close> is missing from the sources; the
  amount is debited from the account's balance.\<close>

definition SubBalance :: "address \<Rightarrow> nat \<Rightarrow> StateDB \<Rightarrow> StateDB" where
  "SubBalance a n s = s\<lparr>balances := (balances s)(a := balances s a - int n)\<rparr>"

text \<open>Modelled from the spec: \<open>StateDB.AddBalance\<close> is missing from the sources; the
  amount is credited to the account's balance.\<close>

definition AddBalance :: "address \<Rightarrow> nat \<Rightarrow> StateDB \<Rightarrow> StateDB" where
  "AddBalance a n s = s\<lparr>balances := (balances s)(a := balances s a + int n)\<rparr>"

text \<open>Modelled from the spec: \<open>StateDB.GetCode\<close> is missing from the sources; the
  virtual machine holds the code of every account.\<close>

definition GetCode :: "StateDB \<Rightarrow> address \<Rightarrow> bytes" where
  "GetCode s a = codes s a"

text \<open>
  The plugin (\<open>plugin.BubblePlugin\<close>) is missing from the sources. Its reads return the
  record kept under the key, \<open>nil\<close> (\<open>None\<close>) when there is none, or an error when the
  operation is faulty. Records are read and written under the block hash of the call,
  which is the same throughout one call and is left out of the keys.
\<close>

text \<open>Modelled from the spec: the plugin's \<open>GetBubBasics\<close> is missing from the sources;
  it reads the basics registered for the bubble.\<close>

definition GetBubBasics :: "env \<Rightarrow> BubbleDB \<Rightarrow> bubbleID \<Rightarrow> error + BubBasics option" where
  "GetBubBasics e d b = (if faulty e GetBubBasicsOp then Inl (Sys GetBubBasicsOp) else Inr (basicsOf d b))"

text \<open>Modelled from the spec: the plugin's \<open>GetBubStatus\<close> is missing from the sources;
  it reads the lifecycle state registered for the bubble.\<close>

definition GetBubStatus :: "env \<Rightarrow> BubbleDB \<Rightarrow> bubbleID \<Rightarrow> error + nat option" where
  "GetBubStatus e d b = (if faulty e GetBubStatusOp then Inl (Sys GetBubStatusOp) else Inr (statusOf d b))"

text \<open>Modelled from the spec: the plugin's \<open>GetBubbleInfo\<close> is missing from the sources;
  it returns the bubble with its basics and its state, and a missing bubble is an error
  (\<open>None\<close>), which the callers turn into \<open>ErrBubbleNotExist\<close>.\<close>

definition GetBubbleInfo :: "env \<Rightarrow> BubbleDB \<Rightarrow> bubbleID \<Rightarrow> Bubble option" where
  "GetBubbleInfo e d b =
     (if faulty e GetBubbleInfoOp then None
      else case basicsOf d b of
             None \<Rightarrow> None
           | Some bs \<Rightarrow> (case statusOf d b of
                          None \<Rightarrow> None
                        | Some st \<Rightarrow> Some \<lparr>Basics = bs, State = st\<rparr>))"

text \<open>Modelled from the spec: the plugin's \<open>GetAccAssetOfBub\<close> is missing from the
  sources; it reads the custody record kept for the pair of bubble and account.\<close>

definition GetAccAssetOfBub :: "env \<Rightarrow> BubbleDB \<Rightarrow> bubbleID \<Rightarrow> address \<Rightarrow> error + AccountAsset option" where
  "GetAccAssetOfBub e d b a =
     (if faulty e GetAccAssetOfBubOp then Inl (Sys GetAccAssetOfBubOp) else Inr (accAssetOf d (b, a)))"

text \<open>Modelled from the spec: the plugin's \<open>GetAccListOfBub\<close> is missing from the
  sources; it reads the bubble's stored account list. The list and the error are
  returned side by side, since \<open>SettleBubble\<close> reads the list and drops the error.\<close>

definition GetAccListOfBub :: "env \<Rightarrow> BubbleDB \<Rightarrow> bubbleID \<Rightarrow> address list \<times> error option" where
  "GetAccListOfBub e d b =
     (if faulty e GetAccListOfBubOp then ([], Some (Sys GetAccListOfBubOp)) else (accListOf d b, None))"

text \<open>Modelled from the spec: the plugin's \<open>GetBubContract\<close> is missing from the
  sources. The contract registry is keyed by bubble and address; a pair with no
  registered \<open>ContractInfo\<close> reads as \<open>nil\<close> with no error, which is the case
  \<open>remoteDeploy\<close> goes on from (\<open>contractInfo != nil\<close> is its already-exists rejection).\<close>

definition GetBubContract :: "env \<Rightarrow> BubbleDB \<Rightarrow> bubbleID \<Rightarrow> address \<Rightarrow> error + ContractInfo option" where
  "GetBubContract e d b a =
     (if faulty e GetBubContractOp then Inl (Sys GetBubContractOp) else Inr (bubContractOf d (b, a)))"

text \<open>Modelled from the spec: the plugin's \<open>GetByteCode\<close> is missing from the sources;
  it fetches the code from the bubble-local cache, and the caller falls back to the
  virtual machine's code store when it gives an error.\<close>

definition GetByteCode :: "env \<Rightarrow> BubbleDB \<Rightarrow> address \<Rightarrow> error + bytes" where
  "GetByteCode e d a =
     (if faulty e GetByteCodeOp then Inl (Sys GetByteCodeOp)
      else case byteCodeOf d a of None \<Rightarrow> Inl (Sys GetByteCodeOp) | Some c \<Rightarrow> Inr c)"

text \<open>Modelled from the spec: the plugin's \<open>AddAccAssetToBub\<close> is missing from the
  sources; it persists the staked asset, and how it does is the parameter \<open>AddAccAsset\<close>.\<close>

definition AddAccAssetToBub :: "env \<Rightarrow> bubbleID \<Rightarrow> AccountAsset \<Rightarrow> BubbleDB \<Rightarrow> error + BubbleDB" where
  "AddAccAssetToBub e b a d =
     (if faulty e AddAccAssetToBubOp then Inl (Sys AddAccAssetToBubOp) else Inr (AddAccAsset e b a d))"

text \<open>Modelled from the spec: the plugin's \<open>StoreAccAssetToBub\<close> is missing from the
  sources; the record of the asset's account is replaced wholesale, not merged.\<close>

definition StoreAccAssetToBub :: "env \<Rightarrow> bubbleID \<Rightarrow> AccountAsset \<Rightarrow> BubbleDB \<Rightarrow> error + BubbleDB" where
  "StoreAccAssetToBub e b a d =
     (if faulty e StoreAccAssetToBubOp then Inl (Sys StoreAccAssetToBubOp)
      else Inr (d\<lparr>accAssetOf := (accAssetOf d)((b, Account a) := Some a)\<rparr>))"

text \<open>Modelled from the spec: the plugin's \<open>StoreTxHashToBub\<close> is missing from the
  sources; the hash is appended to the bubble's history of that transaction type.\<close>

definition StoreTxHashToBub :: "env \<Rightarrow> bubbleID \<Rightarrow> hash \<Rightarrow> BubTxType \<Rightarrow> BubbleDB \<Rightarrow> error + BubbleDB" where
  "StoreTxHashToBub e b h t d =
     (if faulty e StoreTxHashToBubOp then Inl (Sys StoreTxHashToBubOp)
      else Inr (d\<lparr>txHashListOf := (txHashListOf d)((b, t) := txHashListOf d (b, t) @ [h])\<rparr>))"

text \<open>Modelled from the spec: the plugin's \<open>StoreL2HashToL1Hash\<close> is missing from the
  sources; the sub-ledger settlement hash is mapped to the parent-chain hash.\<close>

definition StoreL2HashToL1Hash :: "env \<Rightarrow> bubbleID \<Rightarrow> hash \<Rightarrow> hash \<Rightarrow> BubbleDB \<Rightarrow> error + BubbleDB" where
  "StoreL2HashToL1Hash e b l1 l2 d =
     (if faulty e StoreL2HashToL1HashOp then Inl (Sys StoreL2HashToL1HashOp)
      else Inr (d\<lparr>l1HashOf := (l1HashOf d)((b, l2) := Some l1)\<rparr>))"

text \<open>Modelled from the spec: the plugin's \<open>StoreBubContract\<close> is missing from the
  sources; it creates the registry entry of the pair of bubble and deployed address.\<close>

definition StoreBubContract :: "env \<Rightarrow> bubbleID \<Rightarrow> ContractInfo \<Rightarrow> BubbleDB \<Rightarrow> error + BubbleDB" where
  "StoreBubContract e b ci d =
     (if faulty e StoreBubContractOp then Inl (Sys StoreBubContractOp)
      else Inr (d\<lparr>bubContractOf := (bubContractOf d)((b, Address ci) := Some ci)\<rparr>))"

text \<open>Modelled from the spec: the plugin's \<open>DelBubContract\<close> is missing from the
  sources; it removes the registry entry.\<close>

definition DelBubContract :: "env \<Rightarrow> bubbleID \<Rightarrow> address \<Rightarrow> BubbleDB \<Rightarrow> error + BubbleDB" where
  "DelBubContract e b a d =
     (if faulty e DelBubContractOp then Inl (Sys DelBubContractOp)
      else Inr (d\<lparr>bubContractOf := (bubContractOf d)((b, a) := None)\<rparr>))"

text \<open>Modelled from the spec: the plugin's \<open>StoreByteCode\<close> is missing from the
  sources; the code is cached bubble-locally (\<open>remoteDeploy\<close> does not look at what it
  returns).\<close>

definition StoreByteCode :: "address \<Rightarrow> bytes \<Rightarrow> BubbleDB \<Rightarrow> BubbleDB" where
  "StoreByteCode a c d = d\<lparr>byteCodeOf := (byteCodeOf d)(a := Some c)\<rparr>"

text \<open>Modelled from the spec: the plugin's \<open>PostMintTokenEvent\<close>, \<open>PostRemoteDeployEvent\<close>
  and \<open>PostRemoteCallEvent\<close> are missing from the sources; posting a task either hands
  it to the dispatch channel or surfaces as an error.\<close>

definition PostEvent :: "env \<Rightarrow> dbop \<Rightarrow> task \<Rightarrow> task list \<Rightarrow> error + task list" where
  "PostEvent e opn t ts = (if faulty e opn then Inl (Sys opn) else Inr (ts @ [t]))"

section \<open>The processing functions\<close>

subsection \<open>\<open>StakingToken\<close>\<close>

text \<open>
  The loop over \<open>stakingAsset.TokenAssets\<close>: the code of the token contract must exist,
  the transfer to the custody address is encoded and run in the virtual machine with
  the contract object switched to the token (\<open>contract.self\<close>, \<open>SetCallCode\<close>); the
  caller stays the staking account. A failed run is a plain error when gas is being
  estimated and \<open>ErrEVMExecERC20\<close> otherwise. The loop returns the error it stopped
  with, if any, and the state database as it then is.
\<close>

fun stakingLoop :: "env \<Rightarrow> address \<Rightarrow> bool \<Rightarrow> AccTokenAsset list \<Rightarrow> StateDB \<Rightarrow> error option \<times> StateDB" where
  "stakingLoop e from isEstimateGas [] s = (None, s)"
| "stakingLoop e from isEstimateGas (tokenAsset # rest) s =
     (let erc20Addr = TokenAddr tokenAsset;
          tokenAmount = Balance tokenAsset;
          code = GetCode s erc20Addr
      in if length code = 0 then (Some (Biz ErrERC20NoExist), s)
         else case encodeTransferFuncCall e (BubbleContractAddr e) tokenAmount of
                None \<Rightarrow> (Some (Biz ErrEncodeTransferData), s)
              | Some input \<Rightarrow>
                  (case RunEvm e \<lparr>callCaller = from, callSelf = erc20Addr,
                                  callCode = code, callInput = input\<rparr> s of
                     Inl msg \<Rightarrow>
                       (Some (if isEstimateGas
                              then Plain (''Failed to Staking ERC20 Token, error:'' @ msg)
                              else Biz ErrEVMExecERC20), s)
                   | Inr s' \<Rightarrow> stakingLoop e from isEstimateGas rest s'))"

text \<open>The native part: the amount leaves the account and enters the system contract when it is positive.\<close>

definition stakingNative :: "env \<Rightarrow> address \<Rightarrow> nat \<Rightarrow> StateDB \<Rightarrow> StateDB" where
  "stakingNative e from nativeAmount s =
     (if nativeAmount > 0
      then AddBalance (BubbleContractAddr e) nativeAmount (SubBalance from nativeAmount s)
      else s)"

text \<open>
  The writes after the loop: the asset, the transaction hash, and the mint task when
  the local node is the first main-chain operator. \<open>OperatorsL1[0]\<close> and
  \<open>OperatorsL2[0]\<close> panic on an empty list.
\<close>

definition stakingPersist :: "env \<Rightarrow> ctx \<Rightarrow> bubbleID \<Rightarrow> AccountAsset \<Rightarrow> BubBasics \<Rightarrow> world \<Rightarrow> (error + bytes option) \<times> world" where
  "stakingPersist e c bubbleID stakingAsset basics w =
     (case AddAccAssetToBub e bubbleID stakingAsset (bdb w) of
        Inl err \<Rightarrow> (Inl err, w)
      | Inr d1 \<Rightarrow>
          (case StoreTxHashToBub e bubbleID (TxHash c) StakingTokenTx d1 of
             Inl err \<Rightarrow> (Inl err, w\<lparr>bdb := d1\<rparr>)
           | Inr d2 \<Rightarrow>
               (case OperatorsL1 basics of
                  [] \<Rightarrow> (Inl Panic, w\<lparr>bdb := d2\<rparr>)
                | op1 # _ \<Rightarrow>
                    if NodeID e = NodeId op1
                    then (case OperatorsL2 basics of
                            [] \<Rightarrow> (Inl Panic, w\<lparr>bdb := d2\<rparr>)
                          | op2 # _ \<Rightarrow>
                              (case PostEvent e PostMintTokenEventOp
                                      (MintTokenTask bubbleID (TxHash c) (RPC op2) (OpAddr op1) stakingAsset)
                                      (posted w) of
                                 Inl err \<Rightarrow> (Inl err, w\<lparr>bdb := d2\<rparr>)
                               | Inr ts \<Rightarrow> (Inr (Some [1]), w\<lparr>bdb := d2, posted := ts\<rparr>)))
                    else (Inr (Some [1]), w\<lparr>bdb := d2\<rparr>))))"

text \<open>From the native transfer to the end of \<open>StakingToken\<close>.\<close>

definition stakingMove :: "env \<Rightarrow> ctx \<Rightarrow> bubbleID \<Rightarrow> AccountAsset \<Rightarrow> BubBasics \<Rightarrow> world \<Rightarrow> (error + bytes option) \<times> world" where
  "stakingMove e c bubbleID stakingAsset basics w =
     (let from = CallerAddress c;
          s1 = stakingNative e from (NativeAmount stakingAsset) (sdb w);
          isEstimateGas = (TxHash c = ZeroHash)
      in case stakingLoop e from isEstimateGas (TokenAssets stakingAsset) s1 of
           (Some err, s2) \<Rightarrow> (Inl err, w\<lparr>sdb := s2\<rparr>)
         | (None, s2) \<Rightarrow>
             if isEstimateGas then (Inr None, w\<lparr>sdb := s2\<rparr>)
             else stakingPersist e c bubbleID stakingAsset basics (w\<lparr>sdb := s2\<rparr>))"

definition StakingToken :: "env \<Rightarrow> ctx \<Rightarrow> bubbleID \<Rightarrow> AccountAsset \<Rightarrow> world \<Rightarrow> (error + bytes option) \<times> world" where
  "StakingToken e c bubbleID stakingAsset w =
     (let from = CallerAddress c
      in if from \<noteq> Account stakingAsset then (Inl (Biz ErrStakingAccount), w)
         else case GetBubBasics e (bdb w) bubbleID of
                Inr (Some basics) \<Rightarrow>
                  (case GetBubStatus e (bdb w) bubbleID of
                     Inr (Some bubState) \<Rightarrow>
                       if bubState = ReleasedStatus e then (Inl (Biz ErrBubbleIsRelease), w)
                       else if GetBalance (sdb w) from < int (NativeAmount stakingAsset)
                       then (Inl (Biz ErrAccountNoEnough), w)
                       else stakingMove e c bubbleID stakingAsset basics w
                   | _ \<Rightarrow> (Inl (Biz ErrBubbleNotExist), w))
              | _ \<Rightarrow> (Inl (Biz ErrBubbleNotExist), w))"

subsection \<open>\<open>WithdrewToken\<close>\<close>

text \<open>
  The loop over the stored \<open>accAsset.TokenAssets\<close>: as in staking, but the caller of
  the run is the system contract and the transfer goes to the withdrawing account; each
  token forwarded adds a zero-balance entry to \<open>resetAsset.TokenAssets\<close>.
\<close>

fun withdrewLoop :: "env \<Rightarrow> address \<Rightarrow> bool \<Rightarrow> AccTokenAsset list \<Rightarrow> StateDB \<Rightarrow> AccTokenAsset list
      \<Rightarrow> error option \<times> StateDB \<times> AccTokenAsset list" where
  "withdrewLoop e from isEstimateGas [] s resetTokens = (None, s, resetTokens)"
| "withdrewLoop e from isEstimateGas (tokenAsset # rest) s resetTokens =
     (let erc20Addr = TokenAddr tokenAsset;
          tokenAmount = Balance tokenAsset;
          code = GetCode s erc20Addr
      in if length code = 0 then (Some (Biz ErrERC20NoExist), s, resetTokens)
         else case encodeTransferFuncCall e from tokenAmount of
                None \<Rightarrow> (Some (Biz ErrEncodeTransferData), s, resetTokens)
              | Some input \<Rightarrow>
                  (case RunEvm e \<lparr>callCaller = BubbleContractAddr e, callSelf = erc20Addr,
                                  callCode = code, callInput = input\<rparr> s of
                     Inl msg \<Rightarrow>
                       (Some (if isEstimateGas
                              then Plain (''Failed to Withdrew ERC20 Token, error:'' @ msg)
                              else Biz ErrEVMExecERC20), s, resetTokens)
                   | Inr s' \<Rightarrow>
                       withdrewLoop e from isEstimateGas rest s'
                         (resetTokens @ [\<lparr>TokenAddr = erc20Addr, Balance = 0\<rparr>])))"

definition withdrewNative :: "env \<Rightarrow> address \<Rightarrow> nat \<Rightarrow> StateDB \<Rightarrow> StateDB" where
  "withdrewNative e from nativeAmount s =
     (if nativeAmount > 0
      then AddBalance from nativeAmount (SubBalance (BubbleContractAddr e) nativeAmount s)
      else s)"

definition withdrewPersist :: "env \<Rightarrow> ctx \<Rightarrow> bubbleID \<Rightarrow> AccountAsset \<Rightarrow> AccountAsset \<Rightarrow> world \<Rightarrow> (error + AccountAsset option) \<times> world" where
  "withdrewPersist e c bubbleID accAsset resetAsset w =
     (case StoreAccAssetToBub e bubbleID resetAsset (bdb w) of
        Inl err \<Rightarrow> (Inl (Biz ErrStoreAccAsset), w)
      | Inr d1 \<Rightarrow>
          (case StoreTxHashToBub e bubbleID (TxHash c) WithdrewTokenTx d1 of
             Inl err \<Rightarrow> (Inl err, w\<lparr>bdb := d1\<rparr>)
           | Inr d2 \<Rightarrow> (Inr (Some accAsset), w\<lparr>bdb := d2\<rparr>)))"

definition withdrewMove :: "env \<Rightarrow> ctx \<Rightarrow> bubbleID \<Rightarrow> AccountAsset \<Rightarrow> world \<Rightarrow> (error + AccountAsset option) \<times> world" where
  "withdrewMove e c bubbleID accAsset w =
     (let from = CallerAddress c;
          s1 = withdrewNative e from (NativeAmount accAsset) (sdb w);
          isEstimateGas = (TxHash c = ZeroHash)
      in case withdrewLoop e from isEstimateGas (TokenAssets accAsset) s1 [] of
           (Some err, s2, resetTokens) \<Rightarrow> (Inl err, w\<lparr>sdb := s2\<rparr>)
         | (None, s2, resetTokens) \<Rightarrow>
             if isEstimateGas then (Inr None, w\<lparr>sdb := s2\<rparr>)
             else withdrewPersist e c bubbleID accAsset
                    \<lparr>Account = from, NativeAmount = 0, TokenAssets = resetTokens\<rparr>
                    (w\<lparr>sdb := s2\<rparr>))"

definition WithdrewToken :: "env \<Rightarrow> ctx \<Rightarrow> bubbleID \<Rightarrow> world \<Rightarrow> (error + AccountAsset option) \<times> world" where
  "WithdrewToken e c bubbleID w =
     (case GetBubBasics e (bdb w) bubbleID of
        Inr (Some basics) \<Rightarrow>
          (case GetBubStatus e (bdb w) bubbleID of
             Inr (Some bubStatus) \<Rightarrow>
               if bubStatus \<noteq> ReleasedStatus e then (Inl (Biz ErrBubbleIsNotRelease), w)
               else (case GetAccAssetOfBub e (bdb w) bubbleID (CallerAddress c) of
                       Inl err \<Rightarrow> (Inl err, w)
                     | Inr None \<Rightarrow> (Inr None, w)
                     | Inr (Some accAsset) \<Rightarrow> withdrewMove e c bubbleID accAsset w)
           | _ \<Rightarrow> (Inl (Biz ErrBubbleNotExist), w))
      | _ \<Rightarrow> (Inl (Biz ErrBubbleNotExist), w))"

subsection \<open>\<open>SettleBubble\<close>\<close>

text \<open>
  The first loop of \<open>SettleBubble\<close>: every submitted account must have a stored asset
  (a read that fails counts as none); the new asset copies the account, the native
  amount and the token entries one by one.
\<close>

fun settleLoop :: "env \<Rightarrow> BubbleDB \<Rightarrow> bubbleID \<Rightarrow> AccountAsset list \<Rightarrow> AccountAsset list \<Rightarrow> error + AccountAsset list" where
  "settleLoop e d bubbleID [] newAccAssets = Inr newAccAssets"
| "settleLoop e d bubbleID (accAsset # rest) newAccAssets =
     (let account = Account accAsset
      in case GetAccAssetOfBub e d bubbleID account of
           Inr (Some localAsset) \<Rightarrow>
             settleLoop e d bubbleID rest
               (newAccAssets @
                  [\<lparr>Account = account, NativeAmount = NativeAmount accAsset,
                    TokenAssets = map (\<lambda>tokenAsset. \<lparr>TokenAddr = TokenAddr tokenAsset,
                                                        Balance = Balance tokenAsset\<rparr>)
                                      (TokenAssets accAsset)\<rparr>])
         | _ \<Rightarrow> Inl (Biz ErrSettleAccNoExist))"

text \<open>The second loop: the new assets are stored one after the other; the first failure stops it.\<close>

fun storeLoop :: "env \<Rightarrow> bubbleID \<Rightarrow> AccountAsset list \<Rightarrow> BubbleDB \<Rightarrow> error option \<times> BubbleDB" where
  "storeLoop e bubbleID [] d = (None, d)"
| "storeLoop e bubbleID (newAccAsset # rest) d =
     (case StoreAccAssetToBub e bubbleID newAccAsset d of
        Inl err \<Rightarrow> (Some (Biz ErrStoreAccAssetToBub), d)
      | Inr d' \<Rightarrow> storeLoop e bubbleID rest d')"

definition settlePersist :: "env \<Rightarrow> ctx \<Rightarrow> hash \<Rightarrow> bubbleID \<Rightarrow> AccountAsset list \<Rightarrow> world \<Rightarrow> (error + bytes option) \<times> world" where
  "settlePersist e c L2SettleTxHash bubbleID newAccAssets w =
     (case storeLoop e bubbleID newAccAssets (bdb w) of
        (Some err, d1) \<Rightarrow> (Inl err, w\<lparr>bdb := d1\<rparr>)
      | (None, d1) \<Rightarrow>
          (case StoreL2HashToL1Hash e bubbleID (TxHash c) L2SettleTxHash d1 of
             Inl err \<Rightarrow> (Inl (Biz ErrStoreL2HashToL1Hash), w\<lparr>bdb := d1\<rparr>)
           | Inr d2 \<Rightarrow>
               (case StoreTxHashToBub e bubbleID (TxHash c) SettleBubbleTx d2 of
                  Inl err \<Rightarrow> (Inl err, w\<lparr>bdb := d2\<rparr>)
                | Inr d3 \<Rightarrow> (Inr (Some [1]), w\<lparr>bdb := d3\<rparr>))))"

text \<open>From the account-list check to the end of \<open>SettleBubble\<close>.\<close>

definition settleAccounts :: "env \<Rightarrow> ctx \<Rightarrow> hash \<Rightarrow> bubbleID \<Rightarrow> SettlementInfo \<Rightarrow> world \<Rightarrow> (error + bytes option) \<times> world" where
  "settleAccounts e c L2SettleTxHash bubbleID settlementInfo w =
     (let accList = fst (GetAccListOfBub e (bdb w) bubbleID)
      in if length accList \<noteq> length (AccAssets settlementInfo)
         then (Inl (Biz ErrSettleAccListIncLength), w)
         else case settleLoop e (bdb w) bubbleID (AccAssets settlementInfo) [] of
                Inl err \<Rightarrow> (Inl err, w)
              | Inr newAccAssets \<Rightarrow>
                  if TxHash c = ZeroHash then (Inr None, w)
                  else settlePersist e c L2SettleTxHash bubbleID newAccAssets w)"

definition SettleBubble :: "env \<Rightarrow> ctx \<Rightarrow> hash \<Rightarrow> bubbleID \<Rightarrow> SettlementInfo \<Rightarrow> world \<Rightarrow> (error + bytes option) \<times> world" where
  "SettleBubble e c L2SettleTxHash bubbleID settlementInfo w =
     (let from = CallerAddress c
      in case GetBubBasics e (bdb w) bubbleID of
           Inr (Some basics) \<Rightarrow>
             (case GetBubStatus e (bdb w) bubbleID of
                Inr (Some bubStatus) \<Rightarrow>
                  if bubStatus = ReleasedStatus e then (Inl (Biz ErrBubbleIsRelease), w)
                  else (case OperatorsL2 basics of
                          [] \<Rightarrow> (Inl Panic, w)
                        | op2 # _ \<Rightarrow>
                            if from \<noteq> OpAddr op2 then (Inl (Biz ErrIsNotSubChainOpAddr), w)
                            else settleAccounts e c L2SettleTxHash bubbleID settlementInfo w)
              | _ \<Rightarrow> (Inl (Biz ErrBubbleNotExist), w))
         | _ \<Rightarrow> (Inl (Biz ErrBubbleNotExist), w))"

section \<open>The contract's methods\<close>

text \<open>
  The tail shared by \<open>stakingToken\<close>, \<open>withdrewToken\<close> and \<open>settleBubble\<close>: no error
  and no result is the estimate-gas answer \<open>(nil, nil)\<close>; a business error goes to
  \<open>txResultHandler\<close>, any other error is returned as it is; otherwise the receipt.
\<close>

definition txResult :: "nat \<Rightarrow> error + 'a option \<Rightarrow> outcome" where
  "txResult fn r =
     (case r of
        Inr None \<Rightarrow> Null
      | Inl (Biz bizErr) \<Rightarrow> BizReceipt fn bizErr
      | Inl err \<Rightarrow> Failed err
      | Inr (Some ret) \<Rightarrow> OkReceipt fn)"

definition stakingToken :: "env \<Rightarrow> ctx \<Rightarrow> bubbleID \<Rightarrow> AccountAsset \<Rightarrow> world \<Rightarrow> outcome \<times> world" where
  "stakingToken e c bubbleID stakingAsset w =
     (case UseGas (StakingTokenGas e) w of
        None \<Rightarrow> (Failed ErrOutOfGas, w)
      | Some w1 \<Rightarrow>
          (case StakingToken e c bubbleID stakingAsset w1 of
             (r, w2) \<Rightarrow> (txResult TxStakingToken r, w2)))"

definition withdrewToken :: "env \<Rightarrow> ctx \<Rightarrow> bubbleID \<Rightarrow> world \<Rightarrow> outcome \<times> world" where
  "withdrewToken e c bubbleID w =
     (case UseGas (WithdrewTokenGas e) w of
        None \<Rightarrow> (Failed ErrOutOfGas, w)
      | Some w1 \<Rightarrow>
          (case WithdrewToken e c bubbleID w1 of
             (r, w2) \<Rightarrow> (txResult TxWithdrewToken r, w2)))"

definition settleBubble :: "env \<Rightarrow> ctx \<Rightarrow> hash \<Rightarrow> bubbleID \<Rightarrow> SettlementInfo \<Rightarrow> world \<Rightarrow> outcome \<times> world" where
  "settleBubble e c L2SettleTxHash bubbleID settlementInfo w =
     (case UseGas (SettleBubbleGas e) w of
        None \<Rightarrow> (Failed ErrOutOfGas, w)
      | Some w1 \<Rightarrow>
          (case SettleBubble e c L2SettleTxHash bubbleID settlementInfo w1 of
             (r, w2) \<Rightarrow> (txResult TxSettleBubble r, w2)))"

subsection \<open>\<open>remoteDeploy\<close>, \<open>remoteClear\<close>, \<open>remoteCall\<close>, \<open>remoteCallExecutor\<close>\<close>

text \<open>
  The loop over \<open>bub.Basics.OperatorsL1\<close> that posts the task once for every operator
  whose node is the local one.
\<close>

fun postLoop :: "env \<Rightarrow> dbop \<Rightarrow> task \<Rightarrow> Operator list \<Rightarrow> task list \<Rightarrow> error option \<times> task list" where
  "postLoop e opn t [] ts = (None, ts)"
| "postLoop e opn t (operators # rest) ts =
     (if NodeId operators = NodeID e
      then (case PostEvent e opn t ts of
              Inl err \<Rightarrow> (Some err, ts)
            | Inr ts' \<Rightarrow> postLoop e opn t rest ts')
      else postLoop e opn t rest ts)"

text \<open>
  \<open>remoteDeploy\<close> after the estimate-gas return: the amount moves to the system
  contract, the code is cached, the registry entry is stored, and the task is built
  (\<open>OperatorsL2[0]\<close> and \<open>OperatorsL1[0]\<close> panic on an empty list) and posted.
\<close>

definition remoteDeployCommit :: "env \<Rightarrow> ctx \<Rightarrow> Bubble \<Rightarrow> bubbleID \<Rightarrow> address \<Rightarrow> nat \<Rightarrow> bytes \<Rightarrow> bytes \<Rightarrow> world \<Rightarrow> outcome \<times> world" where
  "remoteDeployCommit e c bub bubbleID address amount data byteCode w =
     (let from = CallerAddress c;
          s1 = AddBalance (BubbleContractAddr e) amount (SubBalance from amount (sdb w));
          d1 = StoreByteCode address byteCode (bdb w);
          contractInfo = \<lparr>Creator = from, Address = address, Amount = amount\<rparr>
      in case StoreBubContract e bubbleID contractInfo d1 of
           Inl err \<Rightarrow> (Failed err, w\<lparr>sdb := s1, bdb := d1\<rparr>)
         | Inr d2 \<Rightarrow>
             (case OperatorsL2 (Basics bub) of
                [] \<Rightarrow> (Failed Panic, w\<lparr>sdb := s1, bdb := d2\<rparr>)
              | op2 # _ \<Rightarrow>
                  (case OperatorsL1 (Basics bub) of
                     [] \<Rightarrow> (Failed Panic, w\<lparr>sdb := s1, bdb := d2\<rparr>)
                   | op1 # _ \<Rightarrow>
                       (case postLoop e PostRemoteDeployEventOp
                               (RemoteDeployTask (TxHash c) (BlockHash c) bubbleID address data
                                  (RPC op2) (OpAddr op1))
                               (OperatorsL1 (Basics bub)) (posted w) of
                          (Some err, ts) \<Rightarrow> (Failed err, w\<lparr>sdb := s1, bdb := d2, posted := ts\<rparr>)
                        | (None, ts) \<Rightarrow>
                            (OkReceipt TxRemoteDeploy, w\<lparr>sdb := s1, bdb := d2, posted := ts\<rparr>)))))"

text \<open>
  \<open>remoteDeploy\<close> from the byte-code lookup on: the cached code, or the code of the
  state database when the cache gives an error; the registry must have no entry.
\<close>

definition remoteDeployCode :: "env \<Rightarrow> ctx \<Rightarrow> Bubble \<Rightarrow> bubbleID \<Rightarrow> address \<Rightarrow> nat \<Rightarrow> bytes \<Rightarrow> world \<Rightarrow> outcome \<times> world" where
  "remoteDeployCode e c bub bubbleID address amount data w =
     (let byteCode = (case GetByteCode e (bdb w) address of
                        Inl err \<Rightarrow> GetCode (sdb w) address
                      | Inr code \<Rightarrow> code)
      in if length byteCode = 0 then (BizReceipt TxRemoteDeploy ErrEmptyContractCode, w)
         else case GetBubContract e (bdb w) bubbleID address of
                Inl err \<Rightarrow> (Failed err, w)
              | Inr (Some contractInfo) \<Rightarrow> (BizReceipt TxRemoteDeploy ErrContractIsExist, w)
              | Inr None \<Rightarrow>
                  if TxHash c = ZeroHash then (Null, w)
                  else remoteDeployCommit e c bub bubbleID address amount data byteCode w)"

definition remoteDeploy :: "env \<Rightarrow> ctx \<Rightarrow> bubbleID \<Rightarrow> address \<Rightarrow> nat \<Rightarrow> bytes \<Rightarrow> world \<Rightarrow> outcome \<times> world" where
  "remoteDeploy e c bubbleID address amount data w0 =
     (let from = CallerAddress c
      in case UseGas (RemoteDeployGas e) w0 of
           None \<Rightarrow> (Failed ErrOutOfGas, w0)
         | Some w \<Rightarrow>
             (case GetBubbleInfo e (bdb w) bubbleID of
                None \<Rightarrow> (BizReceipt TxRemoteDeploy ErrBubbleNotExist, w)
              | Some bub \<Rightarrow>
                  (case GetSizeConfig e (Size (Basics bub)) of
                     None \<Rightarrow> (Failed (Sys GetSizeConfigOp), w)
                   | Some minStakingAmount \<Rightarrow>
                       if amount < minStakingAmount
                       then (BizReceipt TxAllotBubble ErrStakingAmountTooLow, w)
                       else if GetBalance (sdb w) from < int amount
                       then (Failed (Biz ErrAccountNoEnough), w)
                       else if State bub \<ge> PreReleaseStatus e
                       then (BizReceipt TxRemoteDeploy ErrBubbleIsPreRelease, w)
                       else remoteDeployCode e c bub bubbleID address amount data w)))"

text \<open>
  \<open>remoteClear\<close> reads the registry entry and compares \<open>contractInfo.Creator\<close> with the
  caller at once; with no entry the record is \<open>nil\<close> and the field access panics.
\<close>

definition remoteClear :: "env \<Rightarrow> ctx \<Rightarrow> bubbleID \<Rightarrow> address \<Rightarrow> world \<Rightarrow> outcome \<times> world" where
  "remoteClear e c bubbleID address w =
     (let from = CallerAddress c
      in case GetBubContract e (bdb w) bubbleID address of
           Inl err \<Rightarrow> (Failed err, w)
         | Inr None \<Rightarrow> (Failed Panic, w)
         | Inr (Some contractInfo) \<Rightarrow>
             if from \<noteq> Creator contractInfo
             then (BizReceipt TxRemoteDeploy ErrSenderIsNotCreator, w)
             else if TxHash c = ZeroHash then (Null, w)
             else (case DelBubContract e bubbleID address (bdb w) of
                     Inl err \<Rightarrow> (Failed err, w)
                   | Inr d1 \<Rightarrow>
                       (OkReceipt TxRemoteDeploy,
                        w\<lparr>sdb := AddBalance from (Amount contractInfo)
                                   (SubBalance (BubbleContractAddr e) (Amount contractInfo) (sdb w)),
                          bdb := d1\<rparr>)))"


text \<open>
  \<open>remoteCallExecutor\<close>: only the first sub-chain operator may send it; the contract
  object is switched to the original caller and the target contract, and the call is
  run in the virtual machine.
\<close>

definition remoteCallExecutor :: "env \<Rightarrow> ctx \<Rightarrow> address \<Rightarrow> hash \<Rightarrow> bubbleID \<Rightarrow> address \<Rightarrow> bytes \<Rightarrow> world \<Rightarrow> outcome \<times> world" where
  "remoteCallExecutor e c caller remoteTxHash bubbleID contract data w0 =
     (let from = CallerAddress c
      in case UseGas (RemoteCallExecutorGas e) w0 of
           None \<Rightarrow> (Failed ErrOutOfGas, w0)
         | Some w \<Rightarrow>
             (case GetBubbleInfo e (bdb w) bubbleID of
                None \<Rightarrow> (BizReceipt TxRemoteCallExecutor ErrBubbleNotExist, w)
              | Some bub \<Rightarrow>
                  (case OperatorsL2 (Basics bub) of
                     [] \<Rightarrow> (Failed Panic, w)
                   | op2 # _ \<Rightarrow>
                       if from \<noteq> OpAddr op2
                       then (BizReceipt TxRemoteCallExecutor ErrSenderIsNotOperator, w)
                       else if length (GetCode (sdb w) contract) = 0
                       then (BizReceipt TxRemoteCallExecutor ErrEmptyContractCode, w)
                       else (let isEstimateGas = (TxHash c = ZeroHash)
                             in (case RunEvm e \<lparr>callCaller = caller, callSelf = contract,
                                                 callCode = GetCode (sdb w) contract,
                                                 callInput = data\<rparr> (sdb w) of
                                   Inl msg \<Rightarrow>
                                     (if isEstimateGas
                                      then (Failed (Plain (''call contract error: '' @ msg)), w)
                                      else (BizReceipt TxRemoteCallExecutor (ErrContractReturns msg), w))
                                 | Inr s' \<Rightarrow> (OkReceipt TxRemoteCallExecutor, w\<lparr>sdb := s'\<rparr>))))))"

section \<open>Properties\<close>

subsection \<open>The sub-calls of one stake, and a sample configuration\<close>

text \<open>
  \<open>RunEvm\<close> may rewrite the whole state database, native balances included, and the
  token contract it runs is chosen by the caller. \<open>transfersKeepBalance e from tokens s a\<close>
  follows the loop of \<open>StakingToken\<close> over \<open>tokens\<close> from state \<open>s\<close> and says that each
  transfer sub-call that is made there and succeeds leaves the native balance of account
  \<open>a\<close> as it found it. It says nothing of any other call or state; with no token it
  holds.
\<close>

fun transfersKeepBalance :: "env \<Rightarrow> address \<Rightarrow> AccTokenAsset list \<Rightarrow> StateDB \<Rightarrow> address \<Rightarrow> bool" where
  "transfersKeepBalance e from [] s a = True"
| "transfersKeepBalance e from (tokenAsset # rest) s a =
     (let erc20Addr = TokenAddr tokenAsset;
          code = GetCode s erc20Addr
      in if length code = 0 then True
         else case encodeTransferFuncCall e (BubbleContractAddr e) (Balance tokenAsset) of
                None \<Rightarrow> True
              | Some input \<Rightarrow>
                  (case RunEvm e \<lparr>callCaller = from, callSelf = erc20Addr,
                                  callCode = code, callInput = input\<rparr> s of
                     Inl msg \<Rightarrow> True
                   | Inr s' \<Rightarrow> balances s' a = balances s a \<and> transfersKeepBalance e from rest s' a))"

text \<open>
  A configuration to run the model on. The virtual machine is a small token ledger: the
  call data \<open>[to, amount]\<close> moves \<open>amount\<close> tokens of contract \<open>callSelf\<close> from
  \<open>callCaller\<close> to \<open>to\<close> and fails when the sender holds less. Account 3 holds 1000
  native units and 30 tokens of contract 55; the custody address is 100. Bubble 5 is
  active and bubble 6 released; both know account 3 with a stored asset of 40 native
  units and 10 tokens. The local node (7) is the first main-chain operator, and the
  first sub-chain operator has address 22.
\<close>

definition demoRunEvm :: "EvmCall \<Rightarrow> StateDB \<Rightarrow> string + StateDB" where
  "demoRunEvm call s =
     (case callInput call of
        [to, amount] \<Rightarrow>
          (let token = callSelf call; sender = callCaller call; held = storage s token
           in if held sender < amount then Inl ''transfer amount exceeds balance''
              else Inr (s\<lparr>storage := (storage s)
                          (token := (held(sender := held sender - amount))
                                      (to := (held(sender := held sender - amount)) to + amount))\<rparr>))
      | _ \<Rightarrow> Inl ''invalid call data'')"

definition demoEnv :: env where
  "demoEnv = \<lparr>BubbleContractAddr = 100, ReleasedStatus = 3, PreReleaseStatus = 2,
     StakingTokenGas = 30, WithdrewTokenGas = 30, SettleBubbleGas = 30,
     RemoteDeployGas = 30, RemoteCallGas = 30, RemoteCallExecutorGas = 30,
     GetSizeConfig = (\<lambda>size. if size = 1 then Some 50 else None),
     encodeTransferFuncCall = (\<lambda>to amount. Some [to, amount]),
     RunEvm = demoRunEvm,
     AddAccAsset = (\<lambda>b a d. d\<lparr>accAssetOf := (accAssetOf d)((b, Account a) := Some a)\<rparr>),
     NodeID = 7,
     faulty = (\<lambda>opn. False)\<rparr>"

definition demoBasics :: BubBasics where
  "demoBasics = \<lparr>BubbleId = 5, Size = 1,
     OperatorsL1 = [\<lparr>NodeId = 7, RPC = ''l1'', OpAddr = 11\<rparr>],
     OperatorsL2 = [\<lparr>NodeId = 8, RPC = ''l2'', OpAddr = 22\<rparr>]\<rparr>"

definition demoAsset :: AccountAsset where
  "demoAsset = \<lparr>Account = 3, NativeAmount = 40, TokenAssets = [\<lparr>TokenAddr = 55, Balance = 10\<rparr>]\<rparr>"

definition demoDB :: BubbleDB where
  "demoDB = \<lparr>
     basicsOf = (\<lambda>b. if b = 5 \<or> b = 6 then Some demoBasics else None),
     statusOf = (\<lambda>b. if b = 5 then Some 1 else if b = 6 then Some 3 else None),
     accListOf = (\<lambda>b. if b = 5 \<or> b = 6 then [3] else []),
     accAssetOf = (\<lambda>k. if k = (5, 3) \<or> k = (6, 3) then Some demoAsset else None),
     txHashListOf = (\<lambda>k. []),
     l1HashOf = (\<lambda>k. None),
     bubContractOf = (\<lambda>k. None),
     byteCodeOf = (\<lambda>a. None)\<rparr>"

definition demoState :: StateDB where
  "demoState = \<lparr>
     balances = (\<lambda>a. if a = 3 then 1000 else if a = 100 then 500 else 0),
     codes = (\<lambda>a. if a = 55 then [96, 128] else []),
     storage = (\<lambda>token holder. if token = 55 \<and> holder = 3 then 30
                                else if token = 55 \<and> holder = 100 then 20 else 0)\<rparr>"

definition demoWorld :: world where
  "demoWorld = \<lparr>sdb = demoState, Gas = 1000, bdb = demoDB, posted = []\<rparr>"

definition demoCtx :: "address \<Rightarrow> hash \<Rightarrow> ctx" where
  "demoCtx from txHash = \<lparr>CallerAddress = from, Origin = from, BlockHash = 9, TxHash = txHash\<rparr>"


lemmas demo_defs = demoEnv_def demoBasics_def demoAsset_def demoDB_def demoState_def demoWorld_def
  demoCtx_def demoRunEvm_def

lemmas op_defs = ZeroHash_def UseGas_def GetBalance_def SubBalance_def AddBalance_def GetCode_def
  GetBubBasics_def GetBubStatus_def GetBubbleInfo_def GetAccAssetOfBub_def GetAccListOfBub_def
  GetBubContract_def GetByteCode_def AddAccAssetToBub_def StoreAccAssetToBub_def StoreTxHashToBub_def
  StoreL2HashToL1Hash_def StoreBubContract_def DelBubContract_def StoreByteCode_def PostEvent_def
  stakingNative_def stakingPersist_def stakingMove_def StakingToken_def
  withdrewNative_def withdrewPersist_def withdrewMove_def WithdrewToken_def
  settlePersist_def settleAccounts_def SettleBubble_def txResult_def
  stakingToken_def withdrewToken_def settleBubble_def
  remoteDeployCommit_def remoteDeployCode_def remoteDeploy_def remoteCallExecutor_def Let_def

subsection \<open>What the outcome of a method says about the processing function\<close>




subsection \<open>Staking: balances\<close>

lemma stakingLoop_balances:
  "transfersKeepBalance e f ts s a \<Longrightarrow> stakingLoop e f est ts s = (r, s') \<Longrightarrow>
   balances s' a = balances s a"
proof (induction ts arbitrary: s)
  case Nil
  then show ?case by simp
next
  case (Cons t ts)
  then show ?case
    by (auto simp: Let_def split: if_splits option.splits sum.splits)
qed

lemma stakingPersist_sdb:
  "stakingPersist e c b a bs w = (r, w') \<Longrightarrow> sdb w' = sdb w"
  by (auto simp: stakingPersist_def split: sum.splits list.splits if_splits)

lemma stakingMove_success:
  assumes "stakingMove e c b a bs w = (Inr (Some ret), w')"
  shows "\<exists>s2. stakingLoop e (CallerAddress c) False (TokenAssets a)
            (stakingNative e (CallerAddress c) (NativeAmount a) (sdb w)) = (None, s2) \<and> sdb w' = s2
            \<and> TxHash c \<noteq> ZeroHash"
  using assms
  by (auto simp: stakingMove_def Let_def split: prod.splits option.splits if_splits
           dest: stakingPersist_sdb)

lemma StakingToken_success:
  assumes "StakingToken e c b a w = (Inr (Some ret), w')"
  shows "stakingMove e c b a (the (basicsOf (bdb w) b)) w = (Inr (Some ret), w')"
  using assms
  by (auto simp: StakingToken_def Let_def GetBubBasics_def
          split: sum.splits option.splits if_splits)

lemma stakingNative_balances:
  "f \<noteq> BubbleContractAddr e \<Longrightarrow>
   balances (stakingNative e f n s) (BubbleContractAddr e) = balances s (BubbleContractAddr e) + int n
   \<and> balances (stakingNative e f n s) f = balances s f - int n"
  by (simp add: stakingNative_def AddBalance_def SubBalance_def)

lemma StakingToken_insufficient:
  "GetBalance (sdb w) (CallerAddress c) < int (NativeAmount a) \<Longrightarrow>
   \<exists>x. StakingToken e c b a w = (Inl (Biz x), w)"
  by (auto simp: StakingToken_def Let_def split: sum.splits option.splits)

text \<open>
  C2, as stated, fails in two ways. When the caller is the custody account itself, a
  successful stake of 40 native units leaves the custody balance at 500, not 540: the
  debit and the credit fall on the same account. And when the code of a staked token
  moves native balance, the balances after the stake are not the ones the native
  transfer left: with a virtual machine that credits 7 native units to the caller of
  each sub-call, account 3 stakes 40 native units and 10 tokens and ends with 967, not
  960.
\<close>

theorem staking_conservation_counterexample:
  "fst (StakingToken demoEnv (demoCtx 100 777) 5 (demoAsset\<lparr>Account := 100, TokenAssets := []\<rparr>) demoWorld)
     = Inr (Some [1])
   \<and> NativeAmount (demoAsset\<lparr>Account := 100, TokenAssets := []\<rparr>) = 40
   \<and> balances (sdb demoWorld) (BubbleContractAddr demoEnv) = 500
   \<and> balances (sdb (snd (StakingToken demoEnv (demoCtx 100 777) 5
                           (demoAsset\<lparr>Account := 100, TokenAssets := []\<rparr>) demoWorld)))
        (BubbleContractAddr demoEnv) = 500
   \<and> fst (StakingToken
            (demoEnv\<lparr>RunEvm := (\<lambda>call s. Inr (s\<lparr>balances := (balances s)
                          (callCaller call := balances s (callCaller call) + 7)\<rparr>))\<rparr>)
            (demoCtx 3 777) 5 demoAsset demoWorld)
     = Inr (Some [1])
   \<and> NativeAmount demoAsset = 40
   \<and> balances (sdb demoWorld) 3 = 1000
   \<and> balances (sdb (snd (StakingToken
            (demoEnv\<lparr>RunEvm := (\<lambda>call s. Inr (s\<lparr>balances := (balances s)
                          (callCaller call := balances s (callCaller call) + 7)\<rparr>))\<rparr>)
            (demoCtx 3 777) 5 demoAsset demoWorld))) 3 = 967"
  by (simp add: demo_defs op_defs)

text \<open>
  C2, amended. Every \<open>StakingToken\<close> call that succeeds is a non-estimation call; when
  its caller is an account other than the custody account, and each token-transfer
  sub-call made in this very call leaves the native balances of the caller and of the
  custody account as it found them (as when no token is staked), the custody account's
  native balance after equals its balance before plus the staked native amount and the
  caller's balance after equals its balance before minus that amount. Whenever the
  caller's balance is strictly below the declared native amount, the call fails with a
  business error and the world is the one it started from.
\<close>

theorem staking_conserves_native:
  "(StakingToken e c bubbleID stakingAsset w = (Inr (Some ret), w') \<longrightarrow>
      CallerAddress c \<noteq> BubbleContractAddr e \<longrightarrow>
      transfersKeepBalance e (CallerAddress c) (TokenAssets stakingAsset)
        (stakingNative e (CallerAddress c) (NativeAmount stakingAsset) (sdb w))
        (CallerAddress c) \<longrightarrow>
      transfersKeepBalance e (CallerAddress c) (TokenAssets stakingAsset)
        (stakingNative e (CallerAddress c) (NativeAmount stakingAsset) (sdb w))
        (BubbleContractAddr e) \<longrightarrow>
        TxHash c \<noteq> ZeroHash
      \<and> balances (sdb w') (BubbleContractAddr e)
          = balances (sdb w) (BubbleContractAddr e) + int (NativeAmount stakingAsset)
      \<and> balances (sdb w') (CallerAddress c)
          = balances (sdb w) (CallerAddress c) - int (NativeAmount stakingAsset))
   \<and> (GetBalance (sdb w) (CallerAddress c) < int (NativeAmount stakingAsset) \<longrightarrow>
        (\<exists>x. StakingToken e c bubbleID stakingAsset w = (Inl (Biz x), w)))"
proof (intro conjI impI)
  assume ok: "StakingToken e c bubbleID stakingAsset w = (Inr (Some ret), w')"
    and ne: "CallerAddress c \<noteq> BubbleContractAddr e"
    and k1: "transfersKeepBalance e (CallerAddress c) (TokenAssets stakingAsset)
        (stakingNative e (CallerAddress c) (NativeAmount stakingAsset) (sdb w)) (CallerAddress c)"
    and k2: "transfersKeepBalance e (CallerAddress c) (TokenAssets stakingAsset)
        (stakingNative e (CallerAddress c) (NativeAmount stakingAsset) (sdb w)) (BubbleContractAddr e)"
  from StakingToken_success[OF ok] stakingMove_success
  obtain s2 where loop: "stakingLoop e (CallerAddress c) False (TokenAssets stakingAsset)
            (stakingNative e (CallerAddress c) (NativeAmount stakingAsset) (sdb w)) = (None, s2)"
    and s2: "sdb w' = s2" and tx: "TxHash c \<noteq> ZeroHash"
    by blast
  show "TxHash c \<noteq> ZeroHash" by (rule tx)
  show "balances (sdb w') (BubbleContractAddr e)
          = balances (sdb w) (BubbleContractAddr e) + int (NativeAmount stakingAsset)"
    using stakingLoop_balances[OF k2 loop] stakingNative_balances[OF ne] s2 by simp
  show "balances (sdb w') (CallerAddress c)
          = balances (sdb w) (CallerAddress c) - int (NativeAmount stakingAsset)"
    using stakingLoop_balances[OF k1 loop] stakingNative_balances[OF ne] s2 by simp
next
  assume "GetBalance (sdb w) (CallerAddress c) < int (NativeAmount stakingAsset)"
  then show "\<exists>x. StakingToken e c bubbleID stakingAsset w = (Inl (Biz x), w)"
    by (rule StakingToken_insufficient)
qed

text \<open>
  In the sample configuration account 3 stakes 40 native units and 10 tokens into
  bubble 5; the one transfer sub-call moves tokens only. Custody goes from 500 to 540
  and the account from 1000 to 960. Staking 2000 native units is refused with a business
  error and nothing changes.
\<close>

theorem staking_conserves_native_witness:
  "fst (StakingToken demoEnv (demoCtx 3 777) 5 demoAsset demoWorld) = Inr (Some [1])
   \<and> balances (sdb (snd (StakingToken demoEnv (demoCtx 3 777) 5 demoAsset demoWorld))) 100 = 540
   \<and> balances (sdb (snd (StakingToken demoEnv (demoCtx 3 777) 5 demoAsset demoWorld))) 3 = 960
   \<and> (\<exists>x. StakingToken demoEnv (demoCtx 3 777) 5 (demoAsset\<lparr>NativeAmount := 2000\<rparr>) demoWorld
            = (Inl (Biz x), demoWorld))"
proof -
  have f: "fst (StakingToken demoEnv (demoCtx 3 777) 5 demoAsset demoWorld) = Inr (Some [1])"
    by (simp add: demo_defs op_defs)
  then have ok: "StakingToken demoEnv (demoCtx 3 777) 5 demoAsset demoWorld
      = (Inr (Some [1]), snd (StakingToken demoEnv (demoCtx 3 777) 5 demoAsset demoWorld))"
    by (simp add: prod_eq_iff)
  have ne: "CallerAddress (demoCtx 3 777) \<noteq> BubbleContractAddr demoEnv"
    by (simp add: demoCtx_def demoEnv_def)
  have k: "transfersKeepBalance demoEnv (CallerAddress (demoCtx 3 777)) (TokenAssets demoAsset)
        (stakingNative demoEnv (CallerAddress (demoCtx 3 777)) (NativeAmount demoAsset) (sdb demoWorld))
        (CallerAddress (demoCtx 3 777))"
    "transfersKeepBalance demoEnv (CallerAddress (demoCtx 3 777)) (TokenAssets demoAsset)
        (stakingNative demoEnv (CallerAddress (demoCtx 3 777)) (NativeAmount demoAsset) (sdb demoWorld))
        (BubbleContractAddr demoEnv)"
    by (simp_all add: demo_defs stakingNative_def AddBalance_def SubBalance_def GetCode_def Let_def)
  have low: "GetBalance (sdb demoWorld) (CallerAddress (demoCtx 3 777))
              < int (NativeAmount (demoAsset\<lparr>NativeAmount := 2000\<rparr>))"
    by (simp add: demo_defs GetBalance_def)
  have c: "CallerAddress (demoCtx 3 777) = 3" "BubbleContractAddr demoEnv = 100"
    "balances (sdb demoWorld) 3 = 1000" "balances (sdb demoWorld) 100 = 500"
    "NativeAmount demoAsset = 40"
    by (simp_all add: demo_defs)
  from staking_conserves_native[of demoEnv "demoCtx 3 777" 5 demoAsset demoWorld "[1]"
         "snd (StakingToken demoEnv (demoCtx 3 777) 5 demoAsset demoWorld)"]
       ok ne k
  have "balances (sdb (snd (StakingToken demoEnv (demoCtx 3 777) 5 demoAsset demoWorld))) 100 = 540
      \<and> balances (sdb (snd (StakingToken demoEnv (demoCtx 3 777) 5 demoAsset demoWorld))) 3 = 960"
    by (simp add: c)
  moreover from staking_conserves_native[of demoEnv "demoCtx 3 777" 5
         "demoAsset\<lparr>NativeAmount := 2000\<rparr>" demoWorld] low
  have "\<exists>x. StakingToken demoEnv (demoCtx 3 777) 5 (demoAsset\<lparr>NativeAmount := 2000\<rparr>) demoWorld
            = (Inl (Biz x), demoWorld)"
    by blast
  ultimately show ?thesis using f by blast
qed

subsection \<open>Estimation mode\<close>
































subsection \<open>Lifecycle guards\<close>

lemma StakingToken_released:
  "statusOf (bdb w) b = Some (ReleasedStatus e) \<Longrightarrow> \<exists>x. StakingToken e c b a w = (Inl (Biz x), w)"
  by (auto simp: StakingToken_def Let_def GetBubStatus_def split: sum.splits option.splits)

lemma SettleBubble_released:
  "statusOf (bdb w) b = Some (ReleasedStatus e) \<Longrightarrow> \<exists>x. SettleBubble e c h b si w = (Inl (Biz x), w)"
  by (auto simp: SettleBubble_def Let_def GetBubStatus_def split: sum.splits option.splits)

lemma WithdrewToken_not_released:
  "statusOf (bdb w) b \<noteq> Some (ReleasedStatus e) \<Longrightarrow> \<exists>x. WithdrewToken e c b w = (Inl (Biz x), w)"
  by (auto simp: WithdrewToken_def Let_def GetBubStatus_def split: sum.splits option.splits)

text \<open>
  C3. Whenever the bubble's status is Released, \<open>StakingToken\<close> fails with a business
  error and so does \<open>SettleBubble\<close>; whenever the status is not Released (or there is
  none), \<open>WithdrewToken\<close> fails with a business error. The world is left as it was in
  each case.
\<close>

theorem lifecycle_guards:
  "(statusOf (bdb w) bubbleID = Some (ReleasedStatus e) \<longrightarrow>
      (\<exists>x. StakingToken e c bubbleID stakingAsset w = (Inl (Biz x), w))
    \<and> (\<exists>x. SettleBubble e c L2SettleTxHash bubbleID settlementInfo w = (Inl (Biz x), w)))
   \<and> (statusOf (bdb w) bubbleID \<noteq> Some (ReleasedStatus e) \<longrightarrow>
      (\<exists>x. WithdrewToken e c bubbleID w = (Inl (Biz x), w)))"
  using StakingToken_released[of w bubbleID e c stakingAsset]
        SettleBubble_released[of w bubbleID e c L2SettleTxHash settlementInfo]
        WithdrewToken_not_released[of w bubbleID e c]
  by blast

text \<open>
  In the sample configuration bubble 6 is released and bubble 5 is not: staking into
  bubble 6 and settling it fail with \<open>ErrBubbleIsRelease\<close>, withdrawing from bubble 5
  fails with \<open>ErrBubbleIsNotRelease\<close>.
\<close>

theorem lifecycle_guards_witness:
  "statusOf (bdb demoWorld) 6 = Some (ReleasedStatus demoEnv)
   \<and> statusOf (bdb demoWorld) 5 \<noteq> Some (ReleasedStatus demoEnv)
   \<and> (\<exists>x. StakingToken demoEnv (demoCtx 3 777) 6 demoAsset demoWorld = (Inl (Biz x), demoWorld))
   \<and> (\<exists>x. SettleBubble demoEnv (demoCtx 22 777) 88 6 \<lparr>AccAssets = [demoAsset]\<rparr> demoWorld
            = (Inl (Biz x), demoWorld))
   \<and> (\<exists>x. WithdrewToken demoEnv (demoCtx 3 777) 5 demoWorld = (Inl (Biz x), demoWorld))
   \<and> fst (StakingToken demoEnv (demoCtx 3 777) 6 demoAsset demoWorld) = Inl (Biz ErrBubbleIsRelease)
   \<and> fst (WithdrewToken demoEnv (demoCtx 3 777) 5 demoWorld) = Inl (Biz ErrBubbleIsNotRelease)"
proof -
  have r: "statusOf (bdb demoWorld) 6 = Some (ReleasedStatus demoEnv)"
    by (simp add: demo_defs)
  have a: "statusOf (bdb demoWorld) 5 \<noteq> Some (ReleasedStatus demoEnv)"
    by (simp add: demo_defs)
  have v: "fst (StakingToken demoEnv (demoCtx 3 777) 6 demoAsset demoWorld) = Inl (Biz ErrBubbleIsRelease)"
    "fst (WithdrewToken demoEnv (demoCtx 3 777) 5 demoWorld) = Inl (Biz ErrBubbleIsNotRelease)"
    by (simp_all add: demo_defs op_defs)
  from lifecycle_guards[of demoWorld 6 demoEnv "demoCtx 3 777" demoAsset] r
  have s1: "\<exists>x. StakingToken demoEnv (demoCtx 3 777) 6 demoAsset demoWorld = (Inl (Biz x), demoWorld)"
    by blast
  from lifecycle_guards[of demoWorld 6 demoEnv "demoCtx 22 777" _ 88 "\<lparr>AccAssets = [demoAsset]\<rparr>"] r
  have s2: "\<exists>x. SettleBubble demoEnv (demoCtx 22 777) 88 6 \<lparr>AccAssets = [demoAsset]\<rparr> demoWorld
            = (Inl (Biz x), demoWorld)"
    by blast
  from lifecycle_guards[of demoWorld 5 demoEnv "demoCtx 3 777"] a
  have s3: "\<exists>x. WithdrewToken demoEnv (demoCtx 3 777) 5 demoWorld = (Inl (Biz x), demoWorld)"
    by blast
  from r a s1 s2 s3 v show ?thesis by blast
qed

subsection \<open>Settlement\<close>

lemma settleLoop_missing:
  "\<exists>a \<in> set as. accAssetOf d (b, Account a) = None \<Longrightarrow>
   settleLoop e d b as acc = Inl (Biz ErrSettleAccNoExist)"
proof (induction as arbitrary: acc)
  case Nil
  then show ?case by simp
next
  case (Cons a as)
  show ?case
  proof (cases "GetAccAssetOfBub e d b (Account a)")
    case (Inl x)
    then show ?thesis by (simp add: Let_def)
  next
    case (Inr v)
    show ?thesis
    proof (cases v)
      case None
      with Inr show ?thesis by (simp add: Let_def)
    next
      case (Some l)
      with Inr have "accAssetOf d (b, Account a) \<noteq> None"
        by (auto simp: GetAccAssetOfBub_def split: if_splits)
      with Cons.prems have "\<exists>a \<in> set as. accAssetOf d (b, Account a) = None" by auto
      from Cons.IH[OF this] Inr Some show ?thesis by (simp add: Let_def)
    qed
  qed
qed

lemma settleAccounts_rejects:
  assumes "\<not> faulty e GetAccListOfBubOp"
    and "length (accListOf (bdb w) b) \<noteq> length (AccAssets si)
         \<or> (\<exists>a \<in> set (AccAssets si). accAssetOf (bdb w) (b, Account a) = None)"
  shows "\<exists>x. settleAccounts e c h b si w = (Inl (Biz x), w)"
  using assms settleLoop_missing[of "AccAssets si" "bdb w" b e "[]"]
  by (auto simp: settleAccounts_def Let_def GetAccListOfBub_def)

lemma SettleBubble_cases:
  assumes "\<forall>bs. basicsOf (bdb w) b = Some bs \<longrightarrow> OperatorsL2 bs \<noteq> []"
  shows "(\<exists>x. SettleBubble e c h b si w = (Inl (Biz x), w))
       \<or> SettleBubble e c h b si w = settleAccounts e c h b si w"
  using assms
  by (auto simp: SettleBubble_def Let_def GetBubBasics_def
          split: sum.splits option.splits list.splits if_splits)

text \<open>
  C4. If the number of submitted \<open>AccAssets\<close> differs from the length of the bubble's
  stored account list, or some submitted account has no stored asset record,
  \<open>SettleBubble\<close> is to be rejected with a business error and to write nothing. The
  code does not do so when the plugin's read of the account list fails: the error
  returned by \<open>GetAccListOfBub\<close> is dropped, the only read of the function whose error
  is not looked at, and the length of the list returned with it is compared. In the
  sample configuration, with that read failing, the operator's settlement of bubble 5
  with an empty batch (the bubble has one stored account) is accepted: it returns
  success, stores the hash mapping and appends the transaction hash to the history.
\<close>

theorem settle_accepts_after_failed_list_read:
  "length (accListOf (bdb demoWorld) 5) = 1
   \<and> length (AccAssets \<lparr>AccAssets = []\<rparr>) = 0
   \<and> GetAccListOfBub (demoEnv\<lparr>faulty := (\<lambda>opn. opn = GetAccListOfBubOp)\<rparr>) (bdb demoWorld) 5
       = ([], Some (Sys GetAccListOfBubOp))
   \<and> fst (SettleBubble (demoEnv\<lparr>faulty := (\<lambda>opn. opn = GetAccListOfBubOp)\<rparr>) (demoCtx 22 777) 88 5
            \<lparr>AccAssets = []\<rparr> demoWorld) = Inr (Some [1])
   \<and> txHashListOf (bdb demoWorld) (5, SettleBubbleTx) = []
   \<and> txHashListOf (bdb (snd (SettleBubble (demoEnv\<lparr>faulty := (\<lambda>opn. opn = GetAccListOfBubOp)\<rparr>)
                                (demoCtx 22 777) 88 5 \<lparr>AccAssets = []\<rparr> demoWorld)))
        (5, SettleBubbleTx) = [777]
   \<and> l1HashOf (bdb demoWorld) (5, 88) = None
   \<and> l1HashOf (bdb (snd (SettleBubble (demoEnv\<lparr>faulty := (\<lambda>opn. opn = GetAccListOfBubOp)\<rparr>)
                            (demoCtx 22 777) 88 5 \<lparr>AccAssets = []\<rparr> demoWorld)))
        (5, 88) = Some 777"
  by (simp add: demo_defs op_defs)

text \<open>
  The rejection the code does perform. When the read of the account list does not fail
  and the bubble, if it exists, has a first sub-chain operator, a batch whose count
  differs from the length of the stored account list, or which names an account with no
  stored asset record, is rejected with a business error and the world is left as it
  was: no asset is overwritten, no hash mapping stored, no history appended.
\<close>

theorem settle_rejects_mismatch:
  "(\<forall>bs. basicsOf (bdb w) bubbleID = Some bs \<longrightarrow> OperatorsL2 bs \<noteq> []) \<longrightarrow>
   \<not> faulty e GetAccListOfBubOp \<longrightarrow>
   (length (accListOf (bdb w) bubbleID) \<noteq> length (AccAssets settlementInfo)
      \<or> (\<exists>a \<in> set (AccAssets settlementInfo). accAssetOf (bdb w) (bubbleID, Account a) = None)) \<longrightarrow>
   (\<exists>x. SettleBubble e c L2SettleTxHash bubbleID settlementInfo w = (Inl (Biz x), w))"
  using SettleBubble_cases[of w bubbleID e c L2SettleTxHash settlementInfo]
        settleAccounts_rejects[of e w bubbleID settlementInfo c L2SettleTxHash]
  by metis

text \<open>
  In the sample configuration bubble 5 knows one account. The operator's settlement
  with two entries is rejected for the count, and a settlement naming account 4, which
  has no stored asset, is rejected for the account.
\<close>

theorem settle_rejects_mismatch_witness:
  "length (accListOf (bdb demoWorld) 5) \<noteq> length (AccAssets \<lparr>AccAssets = [demoAsset, demoAsset]\<rparr>)
   \<and> (\<exists>x. SettleBubble demoEnv (demoCtx 22 777) 88 5 \<lparr>AccAssets = [demoAsset, demoAsset]\<rparr> demoWorld
            = (Inl (Biz x), demoWorld))
   \<and> fst (SettleBubble demoEnv (demoCtx 22 777) 88 5 \<lparr>AccAssets = [demoAsset, demoAsset]\<rparr> demoWorld)
       = Inl (Biz ErrSettleAccListIncLength)
   \<and> accAssetOf (bdb demoWorld) (5, Account (demoAsset\<lparr>Account := 4\<rparr>)) = None
   \<and> (\<exists>x. SettleBubble demoEnv (demoCtx 22 777) 88 5 \<lparr>AccAssets = [demoAsset\<lparr>Account := 4\<rparr>]\<rparr> demoWorld
            = (Inl (Biz x), demoWorld))
   \<and> fst (SettleBubble demoEnv (demoCtx 22 777) 88 5 \<lparr>AccAssets = [demoAsset\<lparr>Account := 4\<rparr>]\<rparr> demoWorld)
       = Inl (Biz ErrSettleAccNoExist)"
proof -
  have ops: "\<forall>bs. basicsOf (bdb demoWorld) 5 = Some bs \<longrightarrow> OperatorsL2 bs \<noteq> []"
    by (simp add: demo_defs)
  have nf: "\<not> faulty demoEnv GetAccListOfBubOp"
    by (simp add: demoEnv_def)
  have len: "length (accListOf (bdb demoWorld) 5) \<noteq> length (AccAssets \<lparr>AccAssets = [demoAsset, demoAsset]\<rparr>)"
    by (simp add: demo_defs)
  have mis: "accAssetOf (bdb demoWorld) (5, Account (demoAsset\<lparr>Account := 4\<rparr>)) = None"
    by (simp add: demo_defs)
  then have mis': "\<exists>a \<in> set (AccAssets \<lparr>AccAssets = [demoAsset\<lparr>Account := 4\<rparr>]\<rparr>).
                     accAssetOf (bdb demoWorld) (5, Account a) = None"
    by simp
  have v: "fst (SettleBubble demoEnv (demoCtx 22 777) 88 5 \<lparr>AccAssets = [demoAsset, demoAsset]\<rparr> demoWorld)
             = Inl (Biz ErrSettleAccListIncLength)"
    "fst (SettleBubble demoEnv (demoCtx 22 777) 88 5 \<lparr>AccAssets = [demoAsset\<lparr>Account := 4\<rparr>]\<rparr> demoWorld)
             = Inl (Biz ErrSettleAccNoExist)"
    by (simp_all add: demo_defs op_defs)
  from settle_rejects_mismatch[of demoWorld 5 demoEnv "\<lparr>AccAssets = [demoAsset, demoAsset]\<rparr>"
          "demoCtx 22 777" 88] ops nf len
  have s1: "\<exists>x. SettleBubble demoEnv (demoCtx 22 777) 88 5 \<lparr>AccAssets = [demoAsset, demoAsset]\<rparr> demoWorld
            = (Inl (Biz x), demoWorld)"
    by blast
  from settle_rejects_mismatch[of demoWorld 5 demoEnv "\<lparr>AccAssets = [demoAsset\<lparr>Account := 4\<rparr>]\<rparr>"
          "demoCtx 22 777" 88] ops nf mis'
  have s2: "\<exists>x. SettleBubble demoEnv (demoCtx 22 777) 88 5 \<lparr>AccAssets = [demoAsset\<lparr>Account := 4\<rparr>]\<rparr> demoWorld
            = (Inl (Biz x), demoWorld)"
    by blast
  from len mis s1 s2 v show ?thesis by blast
qed

subsection \<open>The first sub-chain operator\<close>

lemma SettleBubble_not_operator:
  "basicsOf (bdb w) b = Some bs \<Longrightarrow> OperatorsL2 bs = op2 # ops \<Longrightarrow> CallerAddress c \<noteq> OpAddr op2 \<Longrightarrow>
   \<exists>x. SettleBubble e c h b si w = (Inl (Biz x), w)"
  by (auto simp: SettleBubble_def Let_def GetBubBasics_def
          split: sum.splits option.splits list.splits)

lemma GetBubbleInfo_Some:
  "\<not> faulty e GetBubbleInfoOp \<Longrightarrow> basicsOf d b = Some bs \<Longrightarrow> statusOf d b = Some st \<Longrightarrow>
   GetBubbleInfo e d b = Some \<lparr>Basics = bs, State = st\<rparr>"
  by (simp add: GetBubbleInfo_def)

lemma remoteCallExecutor_sender:
  assumes "RemoteCallExecutorGas e \<le> Gas w" "\<not> faulty e GetBubbleInfoOp"
     "basicsOf (bdb w) b = Some bs" "statusOf (bdb w) b = Some st" "OperatorsL2 bs = op2 # ops"
  shows "remoteCallExecutor e c caller rh b contract data w =
     (if CallerAddress c \<noteq> OpAddr op2
      then (BizReceipt TxRemoteCallExecutor ErrSenderIsNotOperator,
            w\<lparr>Gas := Gas w - RemoteCallExecutorGas e\<rparr>)
      else if GetCode (sdb w) contract = []
      then (BizReceipt TxRemoteCallExecutor ErrEmptyContractCode,
            w\<lparr>Gas := Gas w - RemoteCallExecutorGas e\<rparr>)
      else (case RunEvm e \<lparr>callCaller = caller, callSelf = contract,
                            callCode = GetCode (sdb w) contract, callInput = data\<rparr> (sdb w) of
              Inl msg \<Rightarrow> (if TxHash c = ZeroHash
                           then Failed (Plain (''call contract error: '' @ msg))
                           else BizReceipt TxRemoteCallExecutor (ErrContractReturns msg),
                          w\<lparr>Gas := Gas w - RemoteCallExecutorGas e\<rparr>)
            | Inr s' \<Rightarrow> (OkReceipt TxRemoteCallExecutor,
                         w\<lparr>Gas := Gas w - RemoteCallExecutorGas e, sdb := s'\<rparr>)))"
  using assms
  by (simp add: remoteCallExecutor_def UseGas_def Let_def GetBubbleInfo_Some split: sum.splits)

text \<open>
  C5. For an existing bubble with first sub-chain operator \<open>op2\<close>: \<open>SettleBubble\<close>
  fails with a business error whenever the sender is not \<open>op2\<close>'s address; and
  \<open>remoteCallExecutor\<close>, once its gas is paid, returns the business failure
  \<open>ErrSenderIsNotOperator\<close> whenever the sender is not that address, and otherwise goes
  on to the code check and the run in the virtual machine, whose success is the
  operation's success.
\<close>

theorem operator_only:
  "basicsOf (bdb w) bubbleID = Some basics \<longrightarrow> OperatorsL2 basics = op2 # ops \<longrightarrow>
     (CallerAddress c \<noteq> OpAddr op2 \<longrightarrow>
        (\<exists>x. SettleBubble e c L2SettleTxHash bubbleID settlementInfo w = (Inl (Biz x), w)))
   \<and> (statusOf (bdb w) bubbleID = Some st \<longrightarrow> \<not> faulty e GetBubbleInfoOp \<longrightarrow>
      RemoteCallExecutorGas e \<le> Gas w \<longrightarrow>
        (CallerAddress c \<noteq> OpAddr op2 \<longrightarrow>
           remoteCallExecutor e c caller remoteTxHash bubbleID contract data w
             = (BizReceipt TxRemoteCallExecutor ErrSenderIsNotOperator,
                w\<lparr>Gas := Gas w - RemoteCallExecutorGas e\<rparr>))
      \<and> (CallerAddress c = OpAddr op2 \<longrightarrow>
           remoteCallExecutor e c caller remoteTxHash bubbleID contract data w
             = (if GetCode (sdb w) contract = []
                then (BizReceipt TxRemoteCallExecutor ErrEmptyContractCode,
                      w\<lparr>Gas := Gas w - RemoteCallExecutorGas e\<rparr>)
                else (case RunEvm e \<lparr>callCaller = caller, callSelf = contract,
                                      callCode = GetCode (sdb w) contract, callInput = data\<rparr> (sdb w) of
                        Inl msg \<Rightarrow> (if TxHash c = ZeroHash
                                     then Failed (Plain (''call contract error: '' @ msg))
                                     else BizReceipt TxRemoteCallExecutor (ErrContractReturns msg),
                                    w\<lparr>Gas := Gas w - RemoteCallExecutorGas e\<rparr>)
                      | Inr s' \<Rightarrow> (OkReceipt TxRemoteCallExecutor,
                                   w\<lparr>Gas := Gas w - RemoteCallExecutorGas e, sdb := s'\<rparr>)))))"
proof (intro impI conjI)
  assume "basicsOf (bdb w) bubbleID = Some basics" "OperatorsL2 basics = op2 # ops"
    "CallerAddress c \<noteq> OpAddr op2"
  then show "\<exists>x. SettleBubble e c L2SettleTxHash bubbleID settlementInfo w = (Inl (Biz x), w)"
    by (rule SettleBubble_not_operator)
next
  assume "basicsOf (bdb w) bubbleID = Some basics" "OperatorsL2 basics = op2 # ops"
    "statusOf (bdb w) bubbleID = Some st" "\<not> faulty e GetBubbleInfoOp"
    "RemoteCallExecutorGas e \<le> Gas w" "CallerAddress c \<noteq> OpAddr op2"
  then show "remoteCallExecutor e c caller remoteTxHash bubbleID contract data w
             = (BizReceipt TxRemoteCallExecutor ErrSenderIsNotOperator,
                w\<lparr>Gas := Gas w - RemoteCallExecutorGas e\<rparr>)"
    by (simp add: remoteCallExecutor_sender)
next
  assume "basicsOf (bdb w) bubbleID = Some basics" "OperatorsL2 basics = op2 # ops"
    "statusOf (bdb w) bubbleID = Some st" "\<not> faulty e GetBubbleInfoOp"
    "RemoteCallExecutorGas e \<le> Gas w" "CallerAddress c = OpAddr op2"
  then show "remoteCallExecutor e c caller remoteTxHash bubbleID contract data w
             = (if GetCode (sdb w) contract = []
                then (BizReceipt TxRemoteCallExecutor ErrEmptyContractCode,
                      w\<lparr>Gas := Gas w - RemoteCallExecutorGas e\<rparr>)
                else (case RunEvm e \<lparr>callCaller = caller, callSelf = contract,
                                      callCode = GetCode (sdb w) contract, callInput = data\<rparr> (sdb w) of
                        Inl msg \<Rightarrow> (if TxHash c = ZeroHash
                                     then Failed (Plain (''call contract error: '' @ msg))
                                     else BizReceipt TxRemoteCallExecutor (ErrContractReturns msg),
                                    w\<lparr>Gas := Gas w - RemoteCallExecutorGas e\<rparr>)
                      | Inr s' \<Rightarrow> (OkReceipt TxRemoteCallExecutor,
                                   w\<lparr>Gas := Gas w - RemoteCallExecutorGas e, sdb := s'\<rparr>)))"
    by (simp add: remoteCallExecutor_sender)
qed

text \<open>
  In the sample configuration the first sub-chain operator of bubble 5 has address 22.
  Sent by account 3, a settlement fails with \<open>ErrIsNotSubChainOpAddr\<close> and
  \<open>remoteCallExecutor\<close> returns \<open>ErrSenderIsNotOperator\<close>; sent by 22, the call into
  token contract 55 is run and the receipt is one of success.
\<close>

theorem operator_only_witness:
  "basicsOf (bdb demoWorld) 5 = Some demoBasics
   \<and> OperatorsL2 demoBasics = \<lparr>NodeId = 8, RPC = ''l2'', OpAddr = 22\<rparr> # []
   \<and> (\<exists>x. SettleBubble demoEnv (demoCtx 3 777) 88 5 \<lparr>AccAssets = [demoAsset]\<rparr> demoWorld
            = (Inl (Biz x), demoWorld))
   \<and> fst (SettleBubble demoEnv (demoCtx 3 777) 88 5 \<lparr>AccAssets = [demoAsset]\<rparr> demoWorld)
       = Inl (Biz ErrIsNotSubChainOpAddr)
   \<and> remoteCallExecutor demoEnv (demoCtx 3 777) 3 66 5 55 [100, 5] demoWorld
       = (BizReceipt TxRemoteCallExecutor ErrSenderIsNotOperator,
          demoWorld\<lparr>Gas := Gas demoWorld - RemoteCallExecutorGas demoEnv\<rparr>)
   \<and> fst (remoteCallExecutor demoEnv (demoCtx 22 777) 3 66 5 55 [100, 5] demoWorld)
       = OkReceipt TxRemoteCallExecutor"
proof -
  have b: "basicsOf (bdb demoWorld) 5 = Some demoBasics"
    and st: "statusOf (bdb demoWorld) 5 = Some 1"
    and o: "OperatorsL2 demoBasics = \<lparr>NodeId = 8, RPC = ''l2'', OpAddr = 22\<rparr> # []"
    and nf: "\<not> faulty demoEnv GetBubbleInfoOp"
    and g: "RemoteCallExecutorGas demoEnv \<le> Gas demoWorld"
    and n3: "CallerAddress (demoCtx 3 777) \<noteq> OpAddr \<lparr>NodeId = 8, RPC = ''l2'', OpAddr = 22\<rparr>"
    and e22: "CallerAddress (demoCtx 22 777) = OpAddr \<lparr>NodeId = 8, RPC = ''l2'', OpAddr = 22\<rparr>"
    by (simp_all add: demo_defs)
  have v: "fst (SettleBubble demoEnv (demoCtx 3 777) 88 5 \<lparr>AccAssets = [demoAsset]\<rparr> demoWorld)
       = Inl (Biz ErrIsNotSubChainOpAddr)"
    by (simp add: demo_defs op_defs)
  have run: "GetCode (sdb demoWorld) 55 \<noteq> []"
    "\<exists>s'. RunEvm demoEnv \<lparr>callCaller = 3, callSelf = 55, callCode = GetCode (sdb demoWorld) 55,
                            callInput = [100, 5]\<rparr> (sdb demoWorld) = Inr s'"
    by (simp_all add: demo_defs GetCode_def)
  note t3 = operator_only[where w = demoWorld and bubbleID = 5 and basics = demoBasics
          and ?op2.0 = "\<lparr>NodeId = 8, RPC = ''l2'', OpAddr = 22\<rparr>" and ops = "[]"
          and c = "demoCtx 3 777" and e = demoEnv and L2SettleTxHash = 88
          and settlementInfo = "\<lparr>AccAssets = [demoAsset]\<rparr>" and st = 1 and caller = 3
          and remoteTxHash = 66 and contract = 55 and data = "[100, 5]"]
  note t22 = operator_only[where w = demoWorld and bubbleID = 5 and basics = demoBasics
          and ?op2.0 = "\<lparr>NodeId = 8, RPC = ''l2'', OpAddr = 22\<rparr>" and ops = "[]"
          and c = "demoCtx 22 777" and e = demoEnv and L2SettleTxHash = 88
          and settlementInfo = "\<lparr>AccAssets = [demoAsset]\<rparr>" and st = 1 and caller = 3
          and remoteTxHash = 66 and contract = 55 and data = "[100, 5]"]
  from t3 b o n3 have s1: "\<exists>x. SettleBubble demoEnv (demoCtx 3 777) 88 5 \<lparr>AccAssets = [demoAsset]\<rparr> demoWorld
            = (Inl (Biz x), demoWorld)"
    by blast
  from t3 b o st nf g n3 have s2: "remoteCallExecutor demoEnv (demoCtx 3 777) 3 66 5 55 [100, 5] demoWorld
       = (BizReceipt TxRemoteCallExecutor ErrSenderIsNotOperator,
          demoWorld\<lparr>Gas := Gas demoWorld - RemoteCallExecutorGas demoEnv\<rparr>)"
    by blast
  from t22 b o st nf g e22 run
  have s3: "fst (remoteCallExecutor demoEnv (demoCtx 22 777) 3 66 5 55 [100, 5] demoWorld)
       = OkReceipt TxRemoteCallExecutor"
    by auto
  from b o s1 v s2 s3 show ?thesis by blast
qed

subsection \<open>\<open>remoteDeploy\<close>: the minimum staking amount and the status\<close>

lemma remoteDeployCode_not_toolow:
  "fst (remoteDeployCode e c bub b a n d w) \<noteq> BizReceipt TxAllotBubble ErrStakingAmountTooLow"
  by (auto simp: remoteDeployCode_def remoteDeployCommit_def Let_def
       split: sum.splits option.splits list.splits prod.splits if_splits)

lemma remoteDeploy_checks:
  assumes "RemoteDeployGas e \<le> Gas w" "\<not> faulty e GetBubbleInfoOp"
     "basicsOf (bdb w) b = Some bs" "statusOf (bdb w) b = Some st" "GetSizeConfig e (Size bs) = Some m"
  shows "remoteDeploy e c b a n d w =
     (if n < m
      then (BizReceipt TxAllotBubble ErrStakingAmountTooLow, w\<lparr>Gas := Gas w - RemoteDeployGas e\<rparr>)
      else if GetBalance (sdb w) (CallerAddress c) < int n
      then (Failed (Biz ErrAccountNoEnough), w\<lparr>Gas := Gas w - RemoteDeployGas e\<rparr>)
      else if PreReleaseStatus e \<le> st
      then (BizReceipt TxRemoteDeploy ErrBubbleIsPreRelease, w\<lparr>Gas := Gas w - RemoteDeployGas e\<rparr>)
      else remoteDeployCode e c \<lparr>Basics = bs, State = st\<rparr> b a n d
             (w\<lparr>Gas := Gas w - RemoteDeployGas e\<rparr>))"
  using assms
  by (simp add: remoteDeploy_def UseGas_def Let_def GetBubbleInfo_Some)

text \<open>
  C6. For a \<open>remoteDeploy\<close> call on an existing bubble whose size class has the minimum
  staking amount \<open>minStakingAmount\<close>, once the gas is paid: an amount strictly below the
  minimum is rejected with the business failure \<open>ErrStakingAmountTooLow\<close>; an amount
  equal to the minimum (or above it) is never rejected so; and a bubble whose status is
  PreRelease or beyond rejects the deploy with a business error (too low an amount, not
  enough balance, or \<open>ErrBubbleIsPreRelease\<close>, in the order of the checks), the world
  being changed in its gas only.
\<close>

theorem remoteDeploy_minimum:
  "basicsOf (bdb w) bubbleID = Some basics \<longrightarrow> statusOf (bdb w) bubbleID = Some st \<longrightarrow>
   \<not> faulty e GetBubbleInfoOp \<longrightarrow> RemoteDeployGas e \<le> Gas w \<longrightarrow>
   GetSizeConfig e (Size basics) = Some minStakingAmount \<longrightarrow>
     (amount < minStakingAmount \<longrightarrow>
        remoteDeploy e c bubbleID address amount data w
          = (BizReceipt TxAllotBubble ErrStakingAmountTooLow, w\<lparr>Gas := Gas w - RemoteDeployGas e\<rparr>))
   \<and> (minStakingAmount \<le> amount \<longrightarrow>
        fst (remoteDeploy e c bubbleID address amount data w)
          \<noteq> BizReceipt TxAllotBubble ErrStakingAmountTooLow)
   \<and> (PreReleaseStatus e \<le> st \<longrightarrow>
        snd (remoteDeploy e c bubbleID address amount data w) = w\<lparr>Gas := Gas w - RemoteDeployGas e\<rparr>
      \<and> fst (remoteDeploy e c bubbleID address amount data w)
          \<in> {BizReceipt TxAllotBubble ErrStakingAmountTooLow, Failed (Biz ErrAccountNoEnough),
              BizReceipt TxRemoteDeploy ErrBubbleIsPreRelease}
      \<and> (minStakingAmount \<le> amount \<longrightarrow> int amount \<le> GetBalance (sdb w) (CallerAddress c) \<longrightarrow>
           fst (remoteDeploy e c bubbleID address amount data w)
             = BizReceipt TxRemoteDeploy ErrBubbleIsPreRelease))"
proof (intro impI)
  assume a: "basicsOf (bdb w) bubbleID = Some basics" "statusOf (bdb w) bubbleID = Some st"
    "\<not> faulty e GetBubbleInfoOp" "RemoteDeployGas e \<le> Gas w"
    "GetSizeConfig e (Size basics) = Some minStakingAmount"
  note eq = remoteDeploy_checks[OF a(4) a(3) a(1) a(2) a(5), where c = c and a = address
               and n = amount and d = data]
  have low: "amount < minStakingAmount \<longrightarrow>
        remoteDeploy e c bubbleID address amount data w
          = (BizReceipt TxAllotBubble ErrStakingAmountTooLow, w\<lparr>Gas := Gas w - RemoteDeployGas e\<rparr>)"
    using eq by simp
  have ok: "minStakingAmount \<le> amount \<longrightarrow>
        fst (remoteDeploy e c bubbleID address amount data w)
          \<noteq> BizReceipt TxAllotBubble ErrStakingAmountTooLow"
    using eq remoteDeployCode_not_toolow[of e c "\<lparr>Basics = basics, State = st\<rparr>" bubbleID address
                amount data "w\<lparr>Gas := Gas w - RemoteDeployGas e\<rparr>"]
    by (simp add: TxAllotBubble_def TxRemoteDeploy_def)
  have pre: "PreReleaseStatus e \<le> st \<longrightarrow>
        snd (remoteDeploy e c bubbleID address amount data w) = w\<lparr>Gas := Gas w - RemoteDeployGas e\<rparr>
      \<and> fst (remoteDeploy e c bubbleID address amount data w)
          \<in> {BizReceipt TxAllotBubble ErrStakingAmountTooLow, Failed (Biz ErrAccountNoEnough),
              BizReceipt TxRemoteDeploy ErrBubbleIsPreRelease}
      \<and> (minStakingAmount \<le> amount \<longrightarrow> int amount \<le> GetBalance (sdb w) (CallerAddress c) \<longrightarrow>
           fst (remoteDeploy e c bubbleID address amount data w)
             = BizReceipt TxRemoteDeploy ErrBubbleIsPreRelease)"
    using eq by simp
  from low ok pre show "(amount < minStakingAmount \<longrightarrow>
        remoteDeploy e c bubbleID address amount data w
          = (BizReceipt TxAllotBubble ErrStakingAmountTooLow, w\<lparr>Gas := Gas w - RemoteDeployGas e\<rparr>))
   \<and> (minStakingAmount \<le> amount \<longrightarrow>
        fst (remoteDeploy e c bubbleID address amount data w)
          \<noteq> BizReceipt TxAllotBubble ErrStakingAmountTooLow)
   \<and> (PreReleaseStatus e \<le> st \<longrightarrow>
        snd (remoteDeploy e c bubbleID address amount data w) = w\<lparr>Gas := Gas w - RemoteDeployGas e\<rparr>
      \<and> fst (remoteDeploy e c bubbleID address amount data w)
          \<in> {BizReceipt TxAllotBubble ErrStakingAmountTooLow, Failed (Biz ErrAccountNoEnough),
              BizReceipt TxRemoteDeploy ErrBubbleIsPreRelease}
      \<and> (minStakingAmount \<le> amount \<longrightarrow> int amount \<le> GetBalance (sdb w) (CallerAddress c) \<longrightarrow>
           fst (remoteDeploy e c bubbleID address amount data w)
             = BizReceipt TxRemoteDeploy ErrBubbleIsPreRelease))"
    by blast
qed

text \<open>
  In the sample configuration the size class of bubble 5 has minimum 50. Deploying
  contract 55 with 49 is rejected as too low; with exactly 50 the deploy succeeds and
  the registry has the new entry; in the released bubble 6 the deploy is rejected with
  \<open>ErrBubbleIsPreRelease\<close>.
\<close>

theorem remoteDeploy_minimum_witness:
  "GetSizeConfig demoEnv (Size demoBasics) = Some 50
   \<and> remoteDeploy demoEnv (demoCtx 3 777) 5 55 49 [] demoWorld
       = (BizReceipt TxAllotBubble ErrStakingAmountTooLow,
          demoWorld\<lparr>Gas := Gas demoWorld - RemoteDeployGas demoEnv\<rparr>)
   \<and> fst (remoteDeploy demoEnv (demoCtx 3 777) 5 55 50 [] demoWorld)
       \<noteq> BizReceipt TxAllotBubble ErrStakingAmountTooLow
   \<and> fst (remoteDeploy demoEnv (demoCtx 3 777) 5 55 50 [] demoWorld) = OkReceipt TxRemoteDeploy
   \<and> bubContractOf (bdb (snd (remoteDeploy demoEnv (demoCtx 3 777) 5 55 50 [] demoWorld))) (5, 55)
       = Some \<lparr>Creator = 3, Address = 55, Amount = 50\<rparr>
   \<and> PreReleaseStatus demoEnv \<le> 3
   \<and> fst (remoteDeploy demoEnv (demoCtx 3 777) 6 55 50 [] demoWorld)
       = BizReceipt TxRemoteDeploy ErrBubbleIsPreRelease
   \<and> snd (remoteDeploy demoEnv (demoCtx 3 777) 6 55 50 [] demoWorld)
       = demoWorld\<lparr>Gas := Gas demoWorld - RemoteDeployGas demoEnv\<rparr>"
proof -
  have h5: "basicsOf (bdb demoWorld) 5 = Some demoBasics" "statusOf (bdb demoWorld) 5 = Some 1"
    and h6: "basicsOf (bdb demoWorld) 6 = Some demoBasics" "statusOf (bdb demoWorld) 6 = Some 3"
    and nf: "\<not> faulty demoEnv GetBubbleInfoOp"
    and g: "RemoteDeployGas demoEnv \<le> Gas demoWorld"
    and m: "GetSizeConfig demoEnv (Size demoBasics) = Some 50"
    and p: "PreReleaseStatus demoEnv \<le> 3"
    and bal: "int 50 \<le> GetBalance (sdb demoWorld) (CallerAddress (demoCtx 3 777))"
    by (simp_all add: demo_defs GetBalance_def)
  have v: "fst (remoteDeploy demoEnv (demoCtx 3 777) 5 55 50 [] demoWorld) = OkReceipt TxRemoteDeploy"
    "bubContractOf (bdb (snd (remoteDeploy demoEnv (demoCtx 3 777) 5 55 50 [] demoWorld))) (5, 55)
       = Some \<lparr>Creator = 3, Address = 55, Amount = 50\<rparr>"
    by (simp_all add: demo_defs op_defs)
  from remoteDeploy_minimum[where w = demoWorld and bubbleID = 5 and basics = demoBasics and st = 1
          and e = demoEnv and minStakingAmount = 50 and amount = 49 and c = "demoCtx 3 777"
          and address = 55 and data = "[]"]
       h5 nf g m
  have s1: "remoteDeploy demoEnv (demoCtx 3 777) 5 55 49 [] demoWorld
       = (BizReceipt TxAllotBubble ErrStakingAmountTooLow,
          demoWorld\<lparr>Gas := Gas demoWorld - RemoteDeployGas demoEnv\<rparr>)"
    by simp
  from remoteDeploy_minimum[where w = demoWorld and bubbleID = 5 and basics = demoBasics and st = 1
          and e = demoEnv and minStakingAmount = 50 and amount = 50 and c = "demoCtx 3 777"
          and address = 55 and data = "[]"]
       h5 nf g m
  have s2: "fst (remoteDeploy demoEnv (demoCtx 3 777) 5 55 50 [] demoWorld)
       \<noteq> BizReceipt TxAllotBubble ErrStakingAmountTooLow"
    by simp
  from remoteDeploy_minimum[where w = demoWorld and bubbleID = 6 and basics = demoBasics and st = 3
          and e = demoEnv and minStakingAmount = 50 and amount = 50 and c = "demoCtx 3 777"
          and address = 55 and data = "[]"]
       h6 nf g m p bal
  have s3: "fst (remoteDeploy demoEnv (demoCtx 3 777) 6 55 50 [] demoWorld)
       = BizReceipt TxRemoteDeploy ErrBubbleIsPreRelease
     \<and> snd (remoteDeploy demoEnv (demoCtx 3 777) 6 55 50 [] demoWorld)
       = demoWorld\<lparr>Gas := Gas demoWorld - RemoteDeployGas demoEnv\<rparr>"
    by simp
  from m s1 s2 v p s3 show ?thesis by blast
qed

subsection \<open>Withdrawal\<close>







lemma WithdrewToken_no_asset:
  assumes "basicsOf (bdb w) b = Some bs" "statusOf (bdb w) b = Some (ReleasedStatus e)"
    "accAssetOf (bdb w) (b, CallerAddress c) = None"
    "\<not> faulty e GetBubBasicsOp" "\<not> faulty e GetBubStatusOp" "\<not> faulty e GetAccAssetOfBubOp"
  shows "WithdrewToken e c b w = (Inr None, w)"
  using assms
  by (simp add: WithdrewToken_def GetBubBasics_def GetBubStatus_def GetAccAssetOfBub_def)

text \<open>
  C10. For a caller with no stored account asset in a Released bubble (the plugin's
  three reads not failing), \<open>WithdrewToken\<close> returns \<open>(nil, nil)\<close> and leaves the world
  as it was: no balance changes, no record is written, nothing is appended to the
  withdrawal history. The method \<open>withdrewToken\<close>, its gas paid, therefore returns the
  null result, the result of an estimation probe, and not a business failure.
\<close>

theorem withdrew_without_asset:
  "basicsOf (bdb w) bubbleID = Some basics \<longrightarrow>
   statusOf (bdb w) bubbleID = Some (ReleasedStatus e) \<longrightarrow>
   accAssetOf (bdb w) (bubbleID, CallerAddress c) = None \<longrightarrow>
   \<not> faulty e GetBubBasicsOp \<longrightarrow> \<not> faulty e GetBubStatusOp \<longrightarrow> \<not> faulty e GetAccAssetOfBubOp \<longrightarrow>
     WithdrewToken e c bubbleID w = (Inr None, w)
   \<and> (WithdrewTokenGas e \<le> Gas w \<longrightarrow>
        withdrewToken e c bubbleID w = (Null, w\<lparr>Gas := Gas w - WithdrewTokenGas e\<rparr>))"
proof (intro impI conjI)
  assume a: "basicsOf (bdb w) bubbleID = Some basics"
    "statusOf (bdb w) bubbleID = Some (ReleasedStatus e)"
    "accAssetOf (bdb w) (bubbleID, CallerAddress c) = None"
    "\<not> faulty e GetBubBasicsOp" "\<not> faulty e GetBubStatusOp" "\<not> faulty e GetAccAssetOfBubOp"
  then show "WithdrewToken e c bubbleID w = (Inr None, w)"
    by (rule WithdrewToken_no_asset)
  assume g: "WithdrewTokenGas e \<le> Gas w"
  have "WithdrewToken e c bubbleID (w\<lparr>Gas := Gas w - WithdrewTokenGas e\<rparr>)
          = (Inr None, w\<lparr>Gas := Gas w - WithdrewTokenGas e\<rparr>)"
    using a by (intro WithdrewToken_no_asset) simp_all
  with g show "withdrewToken e c bubbleID w = (Null, w\<lparr>Gas := Gas w - WithdrewTokenGas e\<rparr>)"
    by (simp add: withdrewToken_def UseGas_def txResult_def)
qed

text \<open>
  In the sample configuration account 4 has no stored asset in the released bubble 6:
  its withdrawal returns the null result and only the gas is spent.
\<close>

theorem withdrew_without_asset_witness:
  "accAssetOf (bdb demoWorld) (6, CallerAddress (demoCtx 4 777)) = None
   \<and> WithdrewToken demoEnv (demoCtx 4 777) 6 demoWorld = (Inr None, demoWorld)
   \<and> withdrewToken demoEnv (demoCtx 4 777) 6 demoWorld
       = (Null, demoWorld\<lparr>Gas := Gas demoWorld - WithdrewTokenGas demoEnv\<rparr>)"
proof -
  have h: "basicsOf (bdb demoWorld) 6 = Some demoBasics"
    "statusOf (bdb demoWorld) 6 = Some (ReleasedStatus demoEnv)"
    "accAssetOf (bdb demoWorld) (6, CallerAddress (demoCtx 4 777)) = None"
    "\<not> faulty demoEnv GetBubBasicsOp" "\<not> faulty demoEnv GetBubStatusOp"
    "\<not> faulty demoEnv GetAccAssetOfBubOp" "WithdrewTokenGas demoEnv \<le> Gas demoWorld"
    by (simp_all add: demo_defs)
  from withdrew_without_asset[of demoWorld 6 demoBasics demoEnv "demoCtx 4 777"] h
  show ?thesis by blast
qed

subsection \<open>A failed run of the virtual machine\<close>

lemma stakingLoop_append:
  "stakingLoop e f est (pre @ post) s =
     (case stakingLoop e f est pre s of
        (None, s1) \<Rightarrow> stakingLoop e f est post s1
      | (Some err, s1) \<Rightarrow> (Some err, s1))"
  by (induction pre arbitrary: s) (auto simp: Let_def split: option.splits sum.splits)

lemma stakingLoop_vm_failure:
  assumes "stakingLoop e f est pre s = (None, s1)"
    and "GetCode s1 (TokenAddr t) \<noteq> []"
    and "encodeTransferFuncCall e (BubbleContractAddr e) (Balance t) = Some input"
    and "RunEvm e \<lparr>callCaller = f, callSelf = TokenAddr t,
                    callCode = GetCode s1 (TokenAddr t), callInput = input\<rparr> s1 = Inl msg"
  shows "stakingLoop e f est (pre @ t # post) s =
     (Some (if est then Plain (''Failed to Staking ERC20 Token, error:'' @ msg)
            else Biz ErrEVMExecERC20), s1)"
  using assms by (simp add: stakingLoop_append Let_def)

lemma StakingToken_vm_failure:
  assumes "CallerAddress c = Account a"
    and "GetBubBasics e (bdb w) b = Inr (Some bs)"
    and "GetBubStatus e (bdb w) b = Inr (Some st)"
    and "st \<noteq> ReleasedStatus e"
    and "int (NativeAmount a) \<le> GetBalance (sdb w) (CallerAddress c)"
    and "TokenAssets a = pre @ t # post"
    and "stakingLoop e (CallerAddress c) (TxHash c = ZeroHash) pre
           (stakingNative e (CallerAddress c) (NativeAmount a) (sdb w)) = (None, s1)"
    and "GetCode s1 (TokenAddr t) \<noteq> []"
    and "encodeTransferFuncCall e (BubbleContractAddr e) (Balance t) = Some input"
    and "RunEvm e \<lparr>callCaller = CallerAddress c, callSelf = TokenAddr t,
                    callCode = GetCode s1 (TokenAddr t), callInput = input\<rparr> s1 = Inl msg"
  shows "StakingToken e c b a w =
     (Inl (if TxHash c = ZeroHash then Plain (''Failed to Staking ERC20 Token, error:'' @ msg)
           else Biz ErrEVMExecERC20), w\<lparr>sdb := s1\<rparr>)"
proof -
  have "StakingToken e c b a w = stakingMove e c b a bs w"
    using assms(1-5) by (simp add: StakingToken_def Let_def)
  also have "\<dots> = (Inl (if TxHash c = ZeroHash then Plain (''Failed to Staking ERC20 Token, error:'' @ msg)
           else Biz ErrEVMExecERC20), w\<lparr>sdb := s1\<rparr>)"
    using stakingLoop_vm_failure[OF assms(7-10), of post] assms(6)
    by (simp add: stakingMove_def Let_def)
  finally show ?thesis .
qed

lemma withdrewLoop_append:
  "withdrewLoop e f est (pre @ post) s rs =
     (case withdrewLoop e f est pre s rs of
        (None, s1, rs1) \<Rightarrow> withdrewLoop e f est post s1 rs1
      | (Some err, s1, rs1) \<Rightarrow> (Some err, s1, rs1))"
  by (induction pre arbitrary: s rs) (auto simp: Let_def split: option.splits sum.splits)

lemma withdrewLoop_vm_failure:
  assumes "withdrewLoop e f est pre s rs = (None, s1, rs1)"
    and "GetCode s1 (TokenAddr t) \<noteq> []"
    and "encodeTransferFuncCall e f (Balance t) = Some input"
    and "RunEvm e \<lparr>callCaller = BubbleContractAddr e, callSelf = TokenAddr t,
                    callCode = GetCode s1 (TokenAddr t), callInput = input\<rparr> s1 = Inl msg"
  shows "withdrewLoop e f est (pre @ t # post) s rs =
     (Some (if est then Plain (''Failed to Withdrew ERC20 Token, error:'' @ msg)
            else Biz ErrEVMExecERC20), s1, rs1)"
  using assms by (simp add: withdrewLoop_append Let_def)

lemma WithdrewToken_vm_failure:
  assumes "GetBubBasics e (bdb w) b = Inr (Some bs)"
    and "GetBubStatus e (bdb w) b = Inr (Some (ReleasedStatus e))"
    and "GetAccAssetOfBub e (bdb w) b (CallerAddress c) = Inr (Some acc)"
    and "TokenAssets acc = pre @ t # post"
    and "withdrewLoop e (CallerAddress c) (TxHash c = ZeroHash) pre
           (withdrewNative e (CallerAddress c) (NativeAmount acc) (sdb w)) [] = (None, s1, rs1)"
    and "GetCode s1 (TokenAddr t) \<noteq> []"
    and "encodeTransferFuncCall e (CallerAddress c) (Balance t) = Some input"
    and "RunEvm e \<lparr>callCaller = BubbleContractAddr e, callSelf = TokenAddr t,
                    callCode = GetCode s1 (TokenAddr t), callInput = input\<rparr> s1 = Inl msg"
  shows "WithdrewToken e c b w =
     (Inl (if TxHash c = ZeroHash then Plain (''Failed to Withdrew ERC20 Token, error:'' @ msg)
           else Biz ErrEVMExecERC20), w\<lparr>sdb := s1\<rparr>)"
proof -
  have "WithdrewToken e c b w = withdrewMove e c b acc w"
    using assms(1-3) by (simp add: WithdrewToken_def)
  also have "\<dots> = (Inl (if TxHash c = ZeroHash then Plain (''Failed to Withdrew ERC20 Token, error:'' @ msg)
           else Biz ErrEVMExecERC20), w\<lparr>sdb := s1\<rparr>)"
    using withdrewLoop_vm_failure[OF assms(5-8), of post] assms(4)
    by (simp add: withdrewMove_def Let_def)
  finally show ?thesis .
qed

lemma remoteCallExecutor_vm_failure:
  assumes "RemoteCallExecutorGas e \<le> Gas w" "\<not> faulty e GetBubbleInfoOp"
    "basicsOf (bdb w) b = Some bs" "statusOf (bdb w) b = Some st" "OperatorsL2 bs = op2 # ops"
    "CallerAddress c = OpAddr op2" "GetCode (sdb w) contract \<noteq> []"
    "RunEvm e \<lparr>callCaller = caller, callSelf = contract,
                callCode = GetCode (sdb w) contract, callInput = data\<rparr> (sdb w) = Inl msg"
  shows "fst (remoteCallExecutor e c caller rh b contract data w) =
     (if TxHash c = ZeroHash then Failed (Plain (''call contract error: '' @ msg))
      else BizReceipt TxRemoteCallExecutor (ErrContractReturns msg))"
  using assms(6-8) by (simp add: remoteCallExecutor_sender[OF assms(1-5)])

lemma stakingToken_vm_failure:
  assumes "StakingTokenGas e \<le> Gas w"
    and "CallerAddress c = Account a"
    and "GetBubBasics e (bdb w) b = Inr (Some bs)"
    and "GetBubStatus e (bdb w) b = Inr (Some st)"
    and "st \<noteq> ReleasedStatus e"
    and "int (NativeAmount a) \<le> GetBalance (sdb w) (CallerAddress c)"
    and "TokenAssets a = pre @ t # post"
    and "stakingLoop e (CallerAddress c) (TxHash c = ZeroHash) pre
           (stakingNative e (CallerAddress c) (NativeAmount a) (sdb w)) = (None, s1)"
    and "GetCode s1 (TokenAddr t) \<noteq> []"
    and "encodeTransferFuncCall e (BubbleContractAddr e) (Balance t) = Some input"
    and "RunEvm e \<lparr>callCaller = CallerAddress c, callSelf = TokenAddr t,
                    callCode = GetCode s1 (TokenAddr t), callInput = input\<rparr> s1 = Inl msg"
  shows "stakingToken e c b a w =
     (if TxHash c = ZeroHash then Failed (Plain (''Failed to Staking ERC20 Token, error:'' @ msg))
      else BizReceipt TxStakingToken ErrEVMExecERC20,
      w\<lparr>Gas := Gas w - StakingTokenGas e, sdb := s1\<rparr>)"
proof -
  have "StakingToken e c b a (w\<lparr>Gas := Gas w - StakingTokenGas e\<rparr>) =
     (Inl (if TxHash c = ZeroHash then Plain (''Failed to Staking ERC20 Token, error:'' @ msg)
           else Biz ErrEVMExecERC20), w\<lparr>Gas := Gas w - StakingTokenGas e, sdb := s1\<rparr>)"
    using StakingToken_vm_failure[of c a e "w\<lparr>Gas := Gas w - StakingTokenGas e\<rparr>" b bs st pre t post s1 input msg]
          assms(2-11)
    by simp
  with assms(1) show ?thesis
    by (simp add: stakingToken_def UseGas_def txResult_def)
qed

lemma withdrewToken_vm_failure:
  assumes "WithdrewTokenGas e \<le> Gas w"
    and "GetBubBasics e (bdb w) b = Inr (Some bs)"
    and "GetBubStatus e (bdb w) b = Inr (Some (ReleasedStatus e))"
    and "GetAccAssetOfBub e (bdb w) b (CallerAddress c) = Inr (Some acc)"
    and "TokenAssets acc = pre @ t # post"
    and "withdrewLoop e (CallerAddress c) (TxHash c = ZeroHash) pre
           (withdrewNative e (CallerAddress c) (NativeAmount acc) (sdb w)) [] = (None, s1, rs1)"
    and "GetCode s1 (TokenAddr t) \<noteq> []"
    and "encodeTransferFuncCall e (CallerAddress c) (Balance t) = Some input"
    and "RunEvm e \<lparr>callCaller = BubbleContractAddr e, callSelf = TokenAddr t,
                    callCode = GetCode s1 (TokenAddr t), callInput = input\<rparr> s1 = Inl msg"
  shows "withdrewToken e c b w =
     (if TxHash c = ZeroHash then Failed (Plain (''Failed to Withdrew ERC20 Token, error:'' @ msg))
      else BizReceipt TxWithdrewToken ErrEVMExecERC20,
      w\<lparr>Gas := Gas w - WithdrewTokenGas e, sdb := s1\<rparr>)"
proof -
  have "WithdrewToken e c b (w\<lparr>Gas := Gas w - WithdrewTokenGas e\<rparr>) =
     (Inl (if TxHash c = ZeroHash then Plain (''Failed to Withdrew ERC20 Token, error:'' @ msg)
           else Biz ErrEVMExecERC20), w\<lparr>Gas := Gas w - WithdrewTokenGas e, sdb := s1\<rparr>)"
    using WithdrewToken_vm_failure[of e "w\<lparr>Gas := Gas w - WithdrewTokenGas e\<rparr>" b bs c acc pre t post s1 rs1 input msg]
          assms(2-9)
    by simp
  with assms(1) show ?thesis
    by (simp add: withdrewToken_def UseGas_def txResult_def)
qed


text \<open>
  C8. Where a call is forwarded into the virtual machine and the run fails with message
  \<open>msg\<close>, all earlier checks having passed and the gas being paid: \<open>remoteCallExecutor\<close>
  returns the business failure \<open>ErrContractReturns\<close> in normal mode and the plain,
  non-business error \<open>call contract error: msg\<close> when the transaction hash is
  all-zero; \<open>stakingToken\<close> and \<open>withdrewToken\<close>, at whichever token of the list the
  run fails, return the structured business failure \<open>ErrEVMExecERC20\<close> in normal mode
  and, when the transaction hash is all-zero, a plain, non-business error carrying
  \<open>msg\<close>, returned as it is: never the null result and never a receipt of success.
  The processing functions \<open>StakingToken\<close> and \<open>WithdrewToken\<close> return the
  corresponding business and plain errors.
\<close>

theorem vm_failure_class:
  "(RemoteCallExecutorGas e \<le> Gas w \<longrightarrow> \<not> faulty e GetBubbleInfoOp \<longrightarrow>
    basicsOf (bdb w) bubbleID = Some basics \<longrightarrow> statusOf (bdb w) bubbleID = Some st \<longrightarrow>
    OperatorsL2 basics = op2 # ops \<longrightarrow> CallerAddress c = OpAddr op2 \<longrightarrow>
    GetCode (sdb w) contract \<noteq> [] \<longrightarrow>
    RunEvm e \<lparr>callCaller = caller, callSelf = contract,
               callCode = GetCode (sdb w) contract, callInput = data\<rparr> (sdb w) = Inl msg \<longrightarrow>
      fst (remoteCallExecutor e c caller remoteTxHash bubbleID contract data w)
        = (if TxHash c = ZeroHash then Failed (Plain (''call contract error: '' @ msg))
           else BizReceipt TxRemoteCallExecutor (ErrContractReturns msg)))
   \<and> (CallerAddress c = Account stakingAsset \<longrightarrow>
      GetBubBasics e (bdb w) bubbleID = Inr (Some basics) \<longrightarrow>
      GetBubStatus e (bdb w) bubbleID = Inr (Some st) \<longrightarrow> st \<noteq> ReleasedStatus e \<longrightarrow>
      int (NativeAmount stakingAsset) \<le> GetBalance (sdb w) (CallerAddress c) \<longrightarrow>
      TokenAssets stakingAsset = pre @ tokenAsset # post \<longrightarrow>
      stakingLoop e (CallerAddress c) (TxHash c = ZeroHash) pre
        (stakingNative e (CallerAddress c) (NativeAmount stakingAsset) (sdb w)) = (None, s1) \<longrightarrow>
      GetCode s1 (TokenAddr tokenAsset) \<noteq> [] \<longrightarrow>
      encodeTransferFuncCall e (BubbleContractAddr e) (Balance tokenAsset) = Some input \<longrightarrow>
      RunEvm e \<lparr>callCaller = CallerAddress c, callSelf = TokenAddr tokenAsset,
                 callCode = GetCode s1 (TokenAddr tokenAsset), callInput = input\<rparr> s1 = Inl msg \<longrightarrow>
        StakingToken e c bubbleID stakingAsset w
          = (Inl (if TxHash c = ZeroHash
                  then Plain (''Failed to Staking ERC20 Token, error:'' @ msg)
                  else Biz ErrEVMExecERC20), w\<lparr>sdb := s1\<rparr>)
      \<and> (StakingTokenGas e \<le> Gas w \<longrightarrow>
           stakingToken e c bubbleID stakingAsset w
             = (if TxHash c = ZeroHash
                then Failed (Plain (''Failed to Staking ERC20 Token, error:'' @ msg))
                else BizReceipt TxStakingToken ErrEVMExecERC20,
                w\<lparr>Gas := Gas w - StakingTokenGas e, sdb := s1\<rparr>)))
   \<and> (GetBubBasics e (bdb w) bubbleID = Inr (Some basics) \<longrightarrow>
      GetBubStatus e (bdb w) bubbleID = Inr (Some (ReleasedStatus e)) \<longrightarrow>
      GetAccAssetOfBub e (bdb w) bubbleID (CallerAddress c) = Inr (Some accAsset) \<longrightarrow>
      TokenAssets accAsset = pre @ tokenAsset # post \<longrightarrow>
      withdrewLoop e (CallerAddress c) (TxHash c = ZeroHash) pre
        (withdrewNative e (CallerAddress c) (NativeAmount accAsset) (sdb w)) [] = (None, s1, rs1) \<longrightarrow>
      GetCode s1 (TokenAddr tokenAsset) \<noteq> [] \<longrightarrow>
      encodeTransferFuncCall e (CallerAddress c) (Balance tokenAsset) = Some input \<longrightarrow>
      RunEvm e \<lparr>callCaller = BubbleContractAddr e, callSelf = TokenAddr tokenAsset,
                 callCode = GetCode s1 (TokenAddr tokenAsset), callInput = input\<rparr> s1 = Inl msg \<longrightarrow>
        WithdrewToken e c bubbleID w
          = (Inl (if TxHash c = ZeroHash
                  then Plain (''Failed to Withdrew ERC20 Token, error:'' @ msg)
                  else Biz ErrEVMExecERC20), w\<lparr>sdb := s1\<rparr>)
      \<and> (WithdrewTokenGas e \<le> Gas w \<longrightarrow>
           withdrewToken e c bubbleID w
             = (if TxHash c = ZeroHash
                then Failed (Plain (''Failed to Withdrew ERC20 Token, error:'' @ msg))
                else BizReceipt TxWithdrewToken ErrEVMExecERC20,
                w\<lparr>Gas := Gas w - WithdrewTokenGas e, sdb := s1\<rparr>)))"
  by (intro conjI impI)
     (erule (7) remoteCallExecutor_vm_failure, erule (9) StakingToken_vm_failure,
      erule (10) stakingToken_vm_failure, erule (7) WithdrewToken_vm_failure,
      erule (8) withdrewToken_vm_failure)

text \<open>
  In the sample configuration account 3 holds 30 tokens of contract 55 and the custody
  address 20. The operator's relayed call moving 500 tokens fails in the virtual
  machine; so does the second transfer of a stake of 10 and then 100 tokens; so does the
  withdrawal of 10 tokens once the custody address holds none. Each operation answers
  with a business failure under transaction hash 777 and with a plain error under the
  all-zero hash.
\<close>

theorem vm_failure_class_witness:
  "fst (remoteCallExecutor demoEnv (demoCtx 22 777) 3 66 5 55 [100, 500] demoWorld)
     = BizReceipt TxRemoteCallExecutor (ErrContractReturns ''transfer amount exceeds balance'')
   \<and> fst (remoteCallExecutor demoEnv (demoCtx 22 0) 3 66 5 55 [100, 500] demoWorld)
     = Failed (Plain ''call contract error: transfer amount exceeds balance'')
   \<and> fst (stakingToken demoEnv (demoCtx 3 777) 5 (demoAsset\<lparr>TokenAssets := [\<lparr>TokenAddr = 55, Balance = 10\<rparr>, \<lparr>TokenAddr = 55, Balance = 100\<rparr>]\<rparr>) demoWorld)
     = BizReceipt TxStakingToken ErrEVMExecERC20
   \<and> fst (stakingToken demoEnv (demoCtx 3 0) 5 (demoAsset\<lparr>TokenAssets := [\<lparr>TokenAddr = 55, Balance = 10\<rparr>, \<lparr>TokenAddr = 55, Balance = 100\<rparr>]\<rparr>) demoWorld)
     = Failed (Plain ''Failed to Staking ERC20 Token, error:transfer amount exceeds balance'')
   \<and> fst (withdrewToken demoEnv (demoCtx 3 777) 6 (demoWorld\<lparr>sdb := demoState\<lparr>storage := (\<lambda>token holder. 0)\<rparr>\<rparr>))
     = BizReceipt TxWithdrewToken ErrEVMExecERC20
   \<and> fst (withdrewToken demoEnv (demoCtx 3 0) 6 (demoWorld\<lparr>sdb := demoState\<lparr>storage := (\<lambda>token holder. 0)\<rparr>\<rparr>))
     = Failed (Plain ''Failed to Withdrew ERC20 Token, error:transfer amount exceeds balance'')"
proof -
  note r1 = vm_failure_class[where e = demoEnv and w = demoWorld and bubbleID = 5
      and basics = demoBasics and st = 1
      and ?op2.0 = "\<lparr>NodeId = 8, RPC = ''l2'', OpAddr = 22\<rparr>" and ops = "[]"
      and c = "demoCtx 22 777" and contract = 55 and caller = 3 and data = "[100, 500]"
      and msg = "''transfer amount exceeds balance''" and remoteTxHash = 66, THEN conjunct1]
  note r2 = vm_failure_class[where e = demoEnv and w = demoWorld and bubbleID = 5
      and basics = demoBasics and st = 1
      and ?op2.0 = "\<lparr>NodeId = 8, RPC = ''l2'', OpAddr = 22\<rparr>" and ops = "[]"
      and c = "demoCtx 22 0" and contract = 55 and caller = 3 and data = "[100, 500]"
      and msg = "''transfer amount exceeds balance''" and remoteTxHash = 66, THEN conjunct1]
  note s1 = vm_failure_class[where e = demoEnv and w = demoWorld and bubbleID = 5
      and basics = demoBasics and st = 1 and c = "demoCtx 3 777"
      and stakingAsset = "(demoAsset\<lparr>TokenAssets := [\<lparr>TokenAddr = 55, Balance = 10\<rparr>, \<lparr>TokenAddr = 55, Balance = 100\<rparr>]\<rparr>)"
      and pre = "[\<lparr>TokenAddr = 55, Balance = 10\<rparr>]"
      and tokenAsset = "\<lparr>TokenAddr = 55, Balance = 100\<rparr>" and post = "[]"
      and ?s1.0 = "snd (stakingLoop demoEnv 3 False [\<lparr>TokenAddr = 55, Balance = 10\<rparr>]
                          (stakingNative demoEnv 3 40 demoState))"
      and input = "[100, 100]" and msg = "''transfer amount exceeds balance''",
      THEN conjunct2, THEN conjunct1]
  note s2 = vm_failure_class[where e = demoEnv and w = demoWorld and bubbleID = 5
      and basics = demoBasics and st = 1 and c = "demoCtx 3 0"
      and stakingAsset = "(demoAsset\<lparr>TokenAssets := [\<lparr>TokenAddr = 55, Balance = 10\<rparr>, \<lparr>TokenAddr = 55, Balance = 100\<rparr>]\<rparr>)"
      and pre = "[\<lparr>TokenAddr = 55, Balance = 10\<rparr>]"
      and tokenAsset = "\<lparr>TokenAddr = 55, Balance = 100\<rparr>" and post = "[]"
      and ?s1.0 = "snd (stakingLoop demoEnv 3 True [\<lparr>TokenAddr = 55, Balance = 10\<rparr>]
                          (stakingNative demoEnv 3 40 demoState))"
      and input = "[100, 100]" and msg = "''transfer amount exceeds balance''",
      THEN conjunct2, THEN conjunct1]
  note w1 = vm_failure_class[where e = demoEnv
      and w = "(demoWorld\<lparr>sdb := demoState\<lparr>storage := (\<lambda>token holder. 0)\<rparr>\<rparr>)" and bubbleID = 6
      and basics = demoBasics and c = "demoCtx 3 777" and accAsset = demoAsset
      and pre = "[]" and tokenAsset = "\<lparr>TokenAddr = 55, Balance = 10\<rparr>" and post = "[]"
      and ?s1.0 = "withdrewNative demoEnv 3 40 (demoState\<lparr>storage := (\<lambda>token holder. 0)\<rparr>)"
      and ?rs1.0 = "[]"
      and input = "[3, 10]" and msg = "''transfer amount exceeds balance''",
      THEN conjunct2, THEN conjunct2]
  note w2 = vm_failure_class[where e = demoEnv
      and w = "(demoWorld\<lparr>sdb := demoState\<lparr>storage := (\<lambda>token holder. 0)\<rparr>\<rparr>)" and bubbleID = 6
      and basics = demoBasics and c = "demoCtx 3 0" and accAsset = demoAsset
      and pre = "[]" and tokenAsset = "\<lparr>TokenAddr = 55, Balance = 10\<rparr>" and post = "[]"
      and ?s1.0 = "withdrewNative demoEnv 3 40 (demoState\<lparr>storage := (\<lambda>token holder. 0)\<rparr>)"
      and ?rs1.0 = "[]"
      and input = "[3, 10]" and msg = "''transfer amount exceeds balance''",
      THEN conjunct2, THEN conjunct2]
  from r1 have a: "fst (remoteCallExecutor demoEnv (demoCtx 22 777) 3 66 5 55 [100, 500] demoWorld)
     = BizReceipt TxRemoteCallExecutor (ErrContractReturns ''transfer amount exceeds balance'')"
    by (simp add: demo_defs ZeroHash_def GetCode_def)
  from r2 have b: "fst (remoteCallExecutor demoEnv (demoCtx 22 0) 3 66 5 55 [100, 500] demoWorld)
     = Failed (Plain ''call contract error: transfer amount exceeds balance'')"
    by (simp add: demo_defs ZeroHash_def GetCode_def)
  from s1 have c: "fst (stakingToken demoEnv (demoCtx 3 777) 5 (demoAsset\<lparr>TokenAssets := [\<lparr>TokenAddr = 55, Balance = 10\<rparr>, \<lparr>TokenAddr = 55, Balance = 100\<rparr>]\<rparr>) demoWorld)
     = BizReceipt TxStakingToken ErrEVMExecERC20"
    by (simp add: demo_defs ZeroHash_def GetCode_def GetBalance_def GetBubBasics_def GetBubStatus_def
          stakingNative_def AddBalance_def SubBalance_def Let_def)
  from s2 have d: "fst (stakingToken demoEnv (demoCtx 3 0) 5 (demoAsset\<lparr>TokenAssets := [\<lparr>TokenAddr = 55, Balance = 10\<rparr>, \<lparr>TokenAddr = 55, Balance = 100\<rparr>]\<rparr>) demoWorld)
     = Failed (Plain ''Failed to Staking ERC20 Token, error:transfer amount exceeds balance'')"
    by (simp add: demo_defs ZeroHash_def GetCode_def GetBalance_def GetBubBasics_def GetBubStatus_def
          stakingNative_def AddBalance_def SubBalance_def Let_def)
  from w1 have e: "fst (withdrewToken demoEnv (demoCtx 3 777) 6 (demoWorld\<lparr>sdb := demoState\<lparr>storage := (\<lambda>token holder. 0)\<rparr>\<rparr>))
     = BizReceipt TxWithdrewToken ErrEVMExecERC20"
    by (simp add: demo_defs ZeroHash_def GetCode_def GetBubBasics_def GetBubStatus_def
          GetAccAssetOfBub_def withdrewNative_def AddBalance_def SubBalance_def Let_def)
  from w2 have f: "fst (withdrewToken demoEnv (demoCtx 3 0) 6 (demoWorld\<lparr>sdb := demoState\<lparr>storage := (\<lambda>token holder. 0)\<rparr>\<rparr>))
     = Failed (Plain ''Failed to Withdrew ERC20 Token, error:transfer amount exceeds balance'')"
    by (simp add: demo_defs ZeroHash_def GetCode_def GetBubBasics_def GetBubStatus_def
          GetAccAssetOfBub_def withdrewNative_def AddBalance_def SubBalance_def Let_def)
  from a b c d e f show ?thesis by blast
qed

subsection \<open>\<open>remoteClear\<close> on an address that was never deployed\<close>

text \<open>
  C9. For a pair of bubble and address with no registered \<open>ContractInfo\<close>, the read of
  the registry (not failing) returns the \<open>nil\<close> record with no error, and \<open>remoteClear\<close>
  reaches its comparison of the caller with \<open>contractInfo.Creator\<close> on that \<open>nil\<close>
  record: it panics, whoever calls it and in whichever mode, and returns nothing.
\<close>

theorem remoteClear_nil_record:
  "bubContractOf (bdb w) (bubbleID, address) = None \<longrightarrow> \<not> faulty e GetBubContractOp \<longrightarrow>
     GetBubContract e (bdb w) bubbleID address = Inr None
   \<and> remoteClear e c bubbleID address w = (Failed Panic, w)"
  by (simp add: GetBubContract_def remoteClear_def)

text \<open>
  In the sample configuration nothing is registered for contract 55 in bubble 5, and
  \<open>remoteClear\<close> panics there.
\<close>

theorem remoteClear_nil_record_witness:
  "bubContractOf (bdb demoWorld) (5, 55) = None
   \<and> GetBubContract demoEnv (bdb demoWorld) 5 55 = Inr None
   \<and> remoteClear demoEnv (demoCtx 3 777) 5 55 demoWorld = (Failed Panic, demoWorld)"
proof -
  have h: "bubContractOf (bdb demoWorld) (5, 55) = None" "\<not> faulty demoEnv GetBubContractOp"
    by (simp_all add: demo_defs)
  from remoteClear_nil_record[of demoWorld 5 55 demoEnv "demoCtx 3 777"] h
  show ?thesis by blast
qed

end
